theory Spec2Isabelle
  imports Complex_Main "HOL-Library.Sublist"
begin

section \<open>Configuration constants\<close>

text \<open>
  The \<^verbatim>\<open>CONFIG\<close> object of ProctoringSystem.js. JavaScript numbers are modelled as
  \<^typ>\<open>real\<close> where they carry measurements, as \<^typ>\<open>nat\<close> where they count, and as
  \<^typ>\<open>int\<close> where they are millisecond clock readings.
\<close>

definition FACE_RECOGNITION_THRESHOLD :: real where "FACE_RECOGNITION_THRESHOLD = 0.50"
definition FACE_RECOGNITION_INTERVAL_MS :: int where "FACE_RECOGNITION_INTERVAL_MS = 10000"
definition FACE_RECOGNITION_INITIAL_DELAY_MS :: int where "FACE_RECOGNITION_INITIAL_DELAY_MS = 1000"
definition CALIBRATION_MAX_FRAMES :: nat where "CALIBRATION_MAX_FRAMES = 45"
definition CALIBRATION_EMA_ALPHA :: real where "CALIBRATION_EMA_ALPHA = 0.1"
definition STABILIZATION_THRESHOLD :: nat where "STABILIZATION_THRESHOLD = 3"
definition STABILIZATION_EMA_ALPHA :: real where "STABILIZATION_EMA_ALPHA = 0.25"
definition ATTENTION_MIN_DISTRACTION_DURATION :: int where "ATTENTION_MIN_DISTRACTION_DURATION = 2000"
definition ATTENTION_HISTORY_SIZE :: nat where "ATTENTION_HISTORY_SIZE = 8"
definition ATTENTION_YAW_THRESHOLD_BASE :: real where "ATTENTION_YAW_THRESHOLD_BASE = 0.08"
definition ATTENTION_YAW_THRESHOLD_MULTIPLIER :: real where "ATTENTION_YAW_THRESHOLD_MULTIPLIER = 2"
definition ATTENTION_YAW_THRESHOLD_OFFSET :: real where "ATTENTION_YAW_THRESHOLD_OFFSET = 0.05"
definition ATTENTION_PITCH_THRESHOLD_BASE :: real where "ATTENTION_PITCH_THRESHOLD_BASE = 0.12"
definition ATTENTION_PITCH_THRESHOLD_MULTIPLIER :: real where "ATTENTION_PITCH_THRESHOLD_MULTIPLIER = 2"
definition ATTENTION_PITCH_THRESHOLD_OFFSET :: real where "ATTENTION_PITCH_THRESHOLD_OFFSET = 0.06"
definition GAZE_MIN_EYE_WIDTH :: real where "GAZE_MIN_EYE_WIDTH = 0.01"
definition GAZE_THRESHOLD_BASE :: real where "GAZE_THRESHOLD_BASE = 0.18"
definition GAZE_THRESHOLD_MULTIPLIER :: real where "GAZE_THRESHOLD_MULTIPLIER = 0.5"
definition GAZE_THRESHOLD_OFFSET :: real where "GAZE_THRESHOLD_OFFSET = 0.12"
definition FRAME_CAPTURE_SAVE_INTERVAL :: int where "FRAME_CAPTURE_SAVE_INTERVAL = 4000"

lemmas CONFIG_defs =
  FACE_RECOGNITION_THRESHOLD_def FACE_RECOGNITION_INTERVAL_MS_def
  FACE_RECOGNITION_INITIAL_DELAY_MS_def CALIBRATION_MAX_FRAMES_def CALIBRATION_EMA_ALPHA_def
  STABILIZATION_THRESHOLD_def STABILIZATION_EMA_ALPHA_def ATTENTION_MIN_DISTRACTION_DURATION_def
  ATTENTION_HISTORY_SIZE_def ATTENTION_YAW_THRESHOLD_BASE_def
  ATTENTION_YAW_THRESHOLD_MULTIPLIER_def ATTENTION_YAW_THRESHOLD_OFFSET_def
  ATTENTION_PITCH_THRESHOLD_BASE_def ATTENTION_PITCH_THRESHOLD_MULTIPLIER_def
  ATTENTION_PITCH_THRESHOLD_OFFSET_def GAZE_MIN_EYE_WIDTH_def GAZE_THRESHOLD_BASE_def
  GAZE_THRESHOLD_MULTIPLIER_def GAZE_THRESHOLD_OFFSET_def FRAME_CAPTURE_SAVE_INTERVAL_def

section \<open>GeometryUtils\<close>

record point =
  pt_x :: real
  pt_y :: real

record head_angles =
  yaw :: real
  pitch :: real

definition calculateEyeCenter :: "point \<Rightarrow> point \<Rightarrow> point" where
  "calculateEyeCenter leftEye rightEye =
     \<lparr>pt_x = (pt_x leftEye + pt_x rightEye) / 2, pt_y = (pt_y leftEye + pt_y rightEye) / 2\<rparr>"

definition calculateHeadAngles :: "point \<Rightarrow> point \<Rightarrow> head_angles" where
  "calculateHeadAngles noseTip eyeCenter =
     \<lparr>yaw = pt_x noseTip - pt_x eyeCenter, pitch = pt_y noseTip - pt_y eyeCenter\<rparr>"

text \<open>\<^verbatim>\<open>calculateGaze\<close> returns \<^verbatim>\<open>null\<close> for a too narrow eye: \<^const>\<open>None\<close> here.\<close>

definition calculateGaze :: "point \<Rightarrow> point \<Rightarrow> point \<Rightarrow> real option" where
  "calculateGaze iris eyeInner eyeOuter =
     (let eyeWidth = \<bar>pt_x eyeInner - pt_x eyeOuter\<bar>
      in if eyeWidth < GAZE_MIN_EYE_WIDTH then None
         else Some ((pt_x iris - pt_x eyeOuter) / eyeWidth))"

section \<open>The state of a ProctoringSystem object\<close>

datatype attention_state = AttUnknown | AttFocused | AttDistracted
datatype person_state = PersonUnknown | PersonAuthorized | PersonUnauthorized
datatype frame_class = Focused | Distracted

record event =
  ev_timestamp :: int
  ev_message :: string
  ev_type :: string

text \<open>
  The structured log holds objects tagged by their \<^verbatim>\<open>type\<close> field; one constructor per
  tag, with the fields the code writes for it. A best distance starts as
  \<^verbatim>\<open>Infinity\<close> and is a number after the first comparison.
\<close>

datatype distance = Infinity | Finite real

datatype log_fields =
    Session_start
  | Session_end int nat nat
  | Calibration_complete real real real
  | Face_count_change nat nat
  | Attention_change attention_state "int option" "string option"
  | Face_recognition person_state distance real
  | Event_entry string string
  | Frame_saved string int

record session_log =
  log_entry :: log_fields
  log_timestamp :: int
  log_session_id :: "int option"

record violation_frame =
  vf_message :: string
  vf_timestamp :: int

text \<open>
  The fields of the class that the monitoring logic reads or writes. The stream, the video
  element, the canvas and the two MediaPipe handles are collaborators and carry no state of
  their own here. \<open>pendingCaptures\<close> is not a field of the class: it records the calls of
  \<^verbatim>\<open>canvas.toBlob\<close> whose callback has not run yet, in the order they were issued.
  A violation frame is kept without its blob.

  Not modelled, since nothing of the object depends on them: what is written to the console,
  the two callbacks \<^verbatim>\<open>onLogEvent\<close> and \<^verbatim>\<open>onViolationUpdate\<close> (they receive the
  event that \<^verbatim>\<open>logEvent\<close> has just appended and the two counters), the downloads that
  \<^verbatim>\<open>stopMonitoring\<close> schedules, and \<^verbatim>\<open>dispose\<close>: the model covers an object from
  its construction until it is disposed of, so the canvas exists throughout.
\<close>

record state =
  isMonitoring :: bool
  enrolledDescriptors :: "real list list option"
  sessionStartTime :: "int option"
  totalViolations :: nat
  attentionViolations :: nat
  sessionEvents :: "event list"
  sessionLogs :: "session_log list"
  lastFaceCount :: nat
  lastAttentionState :: attention_state
  lastPersonState :: person_state
  yawHistory :: "real list"
  pitchHistory :: "real list"
  gazeHistory :: "real list"
  distractionCounter :: nat
  focusCounter :: nat
  unauthorizedCounter :: nat
  authorizedCounter :: nat
  lastViolationFrameSave :: int
  lastFaceRecogTime :: int
  faceRecognitionStarted :: bool
  calibrationFrames :: nat
  baselineYaw :: real
  baselinePitch :: real
  baselineGaze :: real
  distractionStartTime :: "int option"
  violationFrames :: "violation_frame list"
  pendingCaptures :: "string list"

section \<open>Session log and event bus\<close>

text \<open>
  Every handler runs synchronously; the clock readings it takes (\<^verbatim>\<open>Date.now()\<close>,
  \<^verbatim>\<open>new Date()\<close>) are modelled by the single reading \<open>now\<close> passed to it, in
  milliseconds, and a timestamp is kept as that reading rather than as the string the source
  formats from it. All callers of \<^verbatim>\<open>addToSessionLog\<close> pass a timestamp, so the
  fallback of that function is the same reading.
\<close>

definition addToSessionLog :: "log_fields \<Rightarrow> int \<Rightarrow> state \<Rightarrow> state" where
  "addToSessionLog logEntry now s =
     s\<lparr>sessionLogs := sessionLogs s @
          [\<lparr>log_entry = logEntry, log_timestamp = now, log_session_id = sessionStartTime s\<rparr>]\<rparr>"

text \<open>
  \<^verbatim>\<open>saveViolationFrame\<close>: inside the throttle window it returns at once; otherwise it
  records the time and asks the canvas for a blob.
\<close>

definition saveViolationFrame :: "string \<Rightarrow> int \<Rightarrow> state \<Rightarrow> state" where
  "saveViolationFrame message now s =
     (if now - lastViolationFrameSave s < FRAME_CAPTURE_SAVE_INTERVAL then s
      else s\<lparr>lastViolationFrameSave := now, pendingCaptures := pendingCaptures s @ [message]\<rparr>)"

text \<open>
  The callback handed to \<^verbatim>\<open>canvas.toBlob\<close>, run later by the browser with the blob
  (or \<^verbatim>\<open>null\<close>) of the oldest pending request.
\<close>

definition toBlobCallback :: "bool \<Rightarrow> int \<Rightarrow> state \<Rightarrow> state" where
  "toBlobCallback blob now s =
     (case pendingCaptures s of
        [] \<Rightarrow> s
      | message # rest \<Rightarrow>
          (let s1 = s\<lparr>pendingCaptures := rest\<rparr>
           in if \<not> blob then s1
              else addToSessionLog (Frame_saved message now) now
                     (s1\<lparr>violationFrames := violationFrames s1 @
                           [\<lparr>vf_message = message, vf_timestamp = now\<rparr>]\<rparr>)))"

text \<open>\<^verbatim>\<open>String.prototype.includes\<close>: a contiguous occurrence, case-sensitive.\<close>

fun str_includes :: "string \<Rightarrow> string \<Rightarrow> bool" where
  "str_includes [] sub = (sub = [])"
| "str_includes (c # cs) sub = (prefix sub (c # cs) \<or> str_includes cs sub)"

definition logEvent :: "string \<Rightarrow> string \<Rightarrow> int \<Rightarrow> state \<Rightarrow> state" where
  "logEvent message type now s =
     (let s1 = s\<lparr>sessionEvents := sessionEvents s @
                  [\<lparr>ev_timestamp = now, ev_message = message, ev_type = type\<rparr>]\<rparr>;
          s2 = (if type = ''violation'' then
                  (let s3 = s1\<lparr>totalViolations := totalViolations s1 + 1\<rparr>;
                       s4 = (if str_includes message ''distraction'' \<or> str_includes message ''looking away''
                             then s3\<lparr>attentionViolations := attentionViolations s3 + 1\<rparr>
                             else s3)
                   in saveViolationFrame message now s4)
                else s1)
      in addToSessionLog (Event_entry type message) now s2)"

section \<open>Construction, start and stop\<close>

text \<open>
  \<^verbatim>\<open>loadEnrolledFace\<close> reads the persisted string, parses it and converts every element
  to a \<^verbatim>\<open>Float32Array\<close>. \<^verbatim>\<open>JSON.parse\<close> and the conversion belong to the
  platform, so they are parameters: \<open>json_parse\<close> gives \<^const>\<open>None\<close> where
  \<^verbatim>\<open>JSON.parse\<close> throws, \<open>to_descriptors\<close> gives \<^const>\<open>None\<close> where
  \<^verbatim>\<open>parsed.map(d => new Float32Array(d))\<close> throws. Both exceptions reach the same
  \<^verbatim>\<open>catch\<close>, which writes to the console and nothing else. An empty string is falsy,
  like a missing key.
\<close>

definition loadEnrolledFace ::
  "(string \<Rightarrow> 'j option) \<Rightarrow> ('j \<Rightarrow> real list list option) \<Rightarrow> string option \<Rightarrow> int \<Rightarrow> state \<Rightarrow> state"
where
  "loadEnrolledFace json_parse to_descriptors stored now s =
     (if stored \<noteq> None \<and> stored \<noteq> Some []
      then (case Option.bind stored json_parse of
              None \<Rightarrow> s
            | Some parsed \<Rightarrow>
                (case to_descriptors parsed of
                   None \<Rightarrow> s
                 | Some ds \<Rightarrow> s\<lparr>enrolledDescriptors := Some ds\<rparr>))
      else logEvent ''No enrolled face found. Please enroll first.'' ''error'' now s)"

text \<open>The field initialisers of the constructor, in the order of the source.\<close>

definition initial_fields :: state where
  "initial_fields =
     \<lparr>isMonitoring = False, enrolledDescriptors = None, sessionStartTime = None,
      totalViolations = 0, attentionViolations = 0, sessionEvents = [], sessionLogs = [],
      lastFaceCount = 0, lastAttentionState = AttUnknown, lastPersonState = PersonUnknown,
      yawHistory = [], pitchHistory = [], gazeHistory = [],
      distractionCounter = 0, focusCounter = 0, unauthorizedCounter = 0, authorizedCounter = 0,
      lastViolationFrameSave = 0, lastFaceRecogTime = 0, faceRecognitionStarted = False,
      calibrationFrames = 0, baselineYaw = 0, baselinePitch = 0, baselineGaze = 0,
      distractionStartTime = None, violationFrames = [], pendingCaptures = []\<rparr>"

text \<open>
  The constructor for valid collaborators (with an invalid one \<^verbatim>\<open>validateInputs\<close>
  throws and no object exists): the initialisers, then \<^verbatim>\<open>loadEnrolledFace\<close>.
\<close>

definition constructor ::
  "(string \<Rightarrow> 'j option) \<Rightarrow> ('j \<Rightarrow> real list list option) \<Rightarrow> string option \<Rightarrow> int \<Rightarrow> state"
where
  "constructor json_parse to_descriptors stored now =
     loadEnrolledFace json_parse to_descriptors stored now initial_fields"

text \<open>
  \<^verbatim>\<open>startMonitoring\<close> up to its \<^verbatim>\<open>await\<close>: the assignments under the comment
  ``Reset all tracking states'', the start event and the \<^verbatim>\<open>session_start\<close> entry.
\<close>

definition startMonitoring :: "int \<Rightarrow> state \<Rightarrow> state" where
  "startMonitoring now s =
     (let s1 = s\<lparr>isMonitoring := True, sessionStartTime := Some now,
                 lastAttentionState := AttUnknown, lastPersonState := PersonUnknown,
                 calibrationFrames := 0, distractionCounter := 0, focusCounter := 0,
                 unauthorizedCounter := 0, authorizedCounter := 0,
                 sessionEvents := [], sessionLogs := [],
                 lastFaceRecogTime := 0, faceRecognitionStarted := False,
                 violationFrames := []\<rparr>;
          s2 = logEvent ''Monitoring session started - Calibrating...'' ''info'' now s1
      in addToSessionLog Session_start now s2)"

text \<open>The \<^verbatim>\<open>catch\<close> of \<^verbatim>\<open>startMonitoring\<close>, run when the models fail to load.\<close>

definition startMonitoring_failed :: "int \<Rightarrow> state \<Rightarrow> state" where
  "startMonitoring_failed now s = logEvent ''Failed to start monitoring'' ''error'' now s"

definition stopMonitoring :: "int \<Rightarrow> state \<Rightarrow> state" where
  "stopMonitoring now s =
     (let s1 = s\<lparr>isMonitoring := False\<rparr>;
          s2 = logEvent ''Monitoring session stopped'' ''info'' now s1
      in addToSessionLog
           (Session_end (case sessionStartTime s2 of
                           None \<Rightarrow> 0
                         | Some t \<Rightarrow> if t = 0 then 0 else now - t)
              (totalViolations s2) (attentionViolations s2)) now s2)"

section \<open>Identity verification\<close>

definition resetFaceRecognitionCounters :: "state \<Rightarrow> state" where
  "resetFaceRecognitionCounters s = s\<lparr>unauthorizedCounter := 0, authorizedCounter := 0\<rparr>"

text \<open>
  \<^verbatim>\<open>faceapi.euclideanDistance\<close> of face-api.js: it throws when the two arrays differ
  in length (\<^const>\<open>None\<close>), and is the root of the sum of squared differences otherwise.
\<close>

definition euclideanDistance :: "real list \<Rightarrow> real list \<Rightarrow> real option" where
  "euclideanDistance arr1 arr2 =
     (if length arr1 \<noteq> length arr2 then None
      else Some (sqrt (sum_list (map (\<lambda>(u, v). (u - v)\<^sup>2) (zip arr1 arr2)))))"

definition min_distance :: "distance \<Rightarrow> real \<Rightarrow> distance" where
  "min_distance best d = (case best of Infinity \<Rightarrow> Finite d | Finite b \<Rightarrow> Finite (min b d))"

definition exceeds :: "distance \<Rightarrow> real \<Rightarrow> bool" where
  "exceeds best threshold = (case best of Infinity \<Rightarrow> True | Finite b \<Rightarrow> b > threshold)"

text \<open>The loop over the enrolled descriptors; \<^const>\<open>None\<close> when a comparison throws.\<close>

fun bestDistanceLoop :: "real list list \<Rightarrow> real list \<Rightarrow> distance \<Rightarrow> distance option" where
  "bestDistanceLoop [] descriptor bestDistance = Some bestDistance"
| "bestDistanceLoop (refDescriptor # rest) descriptor bestDistance =
     (case euclideanDistance refDescriptor descriptor of
        None \<Rightarrow> None
      | Some d \<Rightarrow> bestDistanceLoop rest descriptor (min_distance bestDistance d))"

text \<open>\<^verbatim>\<open>Number.prototype.toFixed(3)\<close>, which the two recognition messages embed.\<close>

definition digit_char :: "nat \<Rightarrow> char" where
  "digit_char d = char_of (48 + d)"

fun show_nat :: "nat \<Rightarrow> string" where
  "show_nat n = (if n < 10 then [digit_char n] else show_nat (n div 10) @ [digit_char (n mod 10)])"

declare show_nat.simps [simp del]

definition toFixed3 :: "distance \<Rightarrow> string" where
  "toFixed3 v =
     (case v of
        Infinity \<Rightarrow> ''Infinity''
      | Finite d \<Rightarrow>
          (let n = nat \<lfloor>\<bar>d\<bar> * 1000 + 1 / 2\<rfloor>
           in (if d < 0 then ''-'' else []) @ show_nat (n div 1000) @ ''.'' @
              [digit_char (n div 100 mod 10), digit_char (n div 10 mod 10), digit_char (n mod 10)]))"

text \<open>
  What \<^verbatim>\<open>faceapi.detectSingleFace(...).withFaceDescriptor()\<close> gave this cycle: it threw,
  it found no face, or it found one with this descriptor.
\<close>

datatype detection_result = Detection_throws | No_detection | Detection "real list"

definition performFaceRecognition :: "detection_result \<Rightarrow> int \<Rightarrow> state \<Rightarrow> state" where
  "performFaceRecognition detection now s =
     (if lastFaceCount s = 0 \<or> lastFaceCount s > 1 then resetFaceRecognitionCounters s
      else
        (case detection of
           Detection_throws \<Rightarrow> resetFaceRecognitionCounters s
         | No_detection \<Rightarrow> resetFaceRecognitionCounters s
         | Detection descriptor \<Rightarrow>
             (case enrolledDescriptors s of
                None \<Rightarrow> resetFaceRecognitionCounters s
              | Some refs \<Rightarrow>
                  (case bestDistanceLoop refs descriptor Infinity of
                     None \<Rightarrow> resetFaceRecognitionCounters s
                   | Some bestDistance \<Rightarrow>
                       if exceeds bestDistance FACE_RECOGNITION_THRESHOLD then
                         (let s1 = s\<lparr>unauthorizedCounter := unauthorizedCounter s + 1,
                                     authorizedCounter := 0\<rparr>
                          in if unauthorizedCounter s1 \<ge> STABILIZATION_THRESHOLD
                                \<and> lastPersonState s1 \<noteq> PersonUnauthorized
                             then
                               (let s2 = logEvent (''Wrong person detected (distance: '' @
                                            toFixed3 bestDistance @ '')'') ''violation'' now s1;
                                    s3 = s2\<lparr>lastPersonState := PersonUnauthorized\<rparr>
                                in addToSessionLog
                                     (Face_recognition PersonUnauthorized bestDistance
                                        FACE_RECOGNITION_THRESHOLD) now s3)
                             else s1)
                       else
                         (let s1 = s\<lparr>authorizedCounter := authorizedCounter s + 1,
                                     unauthorizedCounter := 0\<rparr>
                          in if authorizedCounter s1 \<ge> STABILIZATION_THRESHOLD
                                \<and> lastPersonState s1 \<noteq> PersonAuthorized
                             then
                               (let s2 = logEvent (''Authorized person verified (distance: '' @
                                            toFixed3 bestDistance @ '')'') ''info'' now s1;
                                    s3 = s2\<lparr>lastPersonState := PersonAuthorized\<rparr>
                                in addToSessionLog
                                     (Face_recognition PersonAuthorized bestDistance
                                        FACE_RECOGNITION_THRESHOLD) now s3)
                             else s1)))))"

text \<open>
  The last stage of a \<^verbatim>\<open>processVideo\<close> tick, after the two awaited sends: the gate on
  the enrolled descriptors and on the schedule, then \<^verbatim>\<open>performFaceRecognition\<close>.
  \<^verbatim>\<open>now - null\<close> is \<^verbatim>\<open>now\<close> in JavaScript.
\<close>

definition processVideo_recognition :: "detection_result \<Rightarrow> int \<Rightarrow> state \<Rightarrow> state" where
  "processVideo_recognition detection now s =
     (case enrolledDescriptors s of
        None \<Rightarrow> s
      | Some refs \<Rightarrow>
          if length refs > 0 then
            (let shouldRunInitial = (\<not> faceRecognitionStarted s \<and>
                   now - (case sessionStartTime s of None \<Rightarrow> 0 | Some t \<Rightarrow> t)
                     \<ge> FACE_RECOGNITION_INITIAL_DELAY_MS);
                 shouldRunPeriodic = (faceRecognitionStarted s \<and>
                   now - lastFaceRecogTime s \<ge> FACE_RECOGNITION_INTERVAL_MS)
             in if shouldRunInitial \<or> shouldRunPeriodic
                then performFaceRecognition detection now
                       (s\<lparr>lastFaceRecogTime := now, faceRecognitionStarted := True\<rparr>)
                else s)
          else s)"

section \<open>Presence\<close>

text \<open>\<open>faceCount\<close> is \<^verbatim>\<open>results.detections.length\<close>.\<close>

definition onFaceDetectionResults :: "nat \<Rightarrow> int \<Rightarrow> state \<Rightarrow> state" where
  "onFaceDetectionResults faceCount now s =
     (if \<not> isMonitoring s then s
      else
        (let s1 = (if faceCount = 0 then
                     resetFaceRecognitionCounters
                       (if lastFaceCount s \<noteq> 0 then logEvent ''No face detected'' ''violation'' now s
                        else s)
                   else if faceCount > 1 then
                     resetFaceRecognitionCounters
                       (if lastFaceCount s \<le> 1
                        then logEvent ''Multiple faces detected'' ''violation'' now s
                        else s)
                   else
                     (if lastFaceCount s \<noteq> 1
                      then logEvent ''Single face detected - OK'' ''info'' now s
                      else s));
             s2 = (if lastFaceCount s1 \<noteq> faceCount
                   then addToSessionLog (Face_count_change (lastFaceCount s1) faceCount) now s1
                   else s1)
         in s2\<lparr>lastFaceCount := faceCount\<rparr>))"

section \<open>Calibration and attention\<close>

text \<open>
  A landmark set is the array MediaPipe delivers. Reading past its end gives
  \<^verbatim>\<open>undefined\<close>, and reading a coordinate of \<^verbatim>\<open>undefined\<close> throws a
  \<^verbatim>\<open>TypeError\<close>.
\<close>

datatype js_error = TypeError

definition landmark :: "point list \<Rightarrow> nat \<Rightarrow> point option" where
  "landmark landmarks i = (if i < length landmarks then Some (landmarks ! i) else None)"

text \<open>\<^verbatim>\<open>history.push(v); if (history.length > HISTORY_SIZE) history.shift()\<close>\<close>

definition push_history :: "real list \<Rightarrow> real \<Rightarrow> real list" where
  "push_history history v =
     (let h = history @ [v] in if length h > ATTENTION_HISTORY_SIZE then tl h else h)"

text \<open>
  The raw head angles of a frame; \<^const>\<open>None\<close> when one of the landmarks 1, 33, 263 is
  missing, where the source throws before it has written anything.
\<close>

definition rawHeadAngles :: "point list \<Rightarrow> head_angles option" where
  "rawHeadAngles landmarks =
     (case (landmark landmarks 1, landmark landmarks 33, landmark landmarks 263) of
        (Some noseTip, Some leftEye, Some rightEye) \<Rightarrow>
          Some (calculateHeadAngles noseTip (calculateEyeCenter leftEye rightEye))
      | _ \<Rightarrow> None)"

text \<open>
  The averaged gaze ratio of a frame, when both iris landmarks are present and both eyes are
  wide enough. With landmark 473 present the array holds 133, 33, 362 and 263 as well.
\<close>

definition avgGaze :: "point list \<Rightarrow> real option" where
  "avgGaze landmarks =
     (case (landmark landmarks 468, landmark landmarks 473) of
        (Some leftIris, Some rightIris) \<Rightarrow>
          (case (calculateGaze leftIris (landmarks ! 133) (landmarks ! 33),
                 calculateGaze rightIris (landmarks ! 362) (landmarks ! 263)) of
             (Some leftGaze, Some rightGaze) \<Rightarrow> Some ((leftGaze + rightGaze) / 2)
           | _ \<Rightarrow> None)
      | _ \<Rightarrow> None)"

definition calibrateBaseline :: "point list \<Rightarrow> state \<Rightarrow> state option" where
  "calibrateBaseline landmarks s =
     (case rawHeadAngles landmarks of
        None \<Rightarrow> None
      | Some angles \<Rightarrow>
          (let s1 = (case avgGaze landmarks of
                       None \<Rightarrow> s
                     | Some g \<Rightarrow>
                         s\<lparr>baselineGaze := baselineGaze s * (1 - CALIBRATION_EMA_ALPHA)
                                             + g * CALIBRATION_EMA_ALPHA\<rparr>)
           in Some (s1\<lparr>baselineYaw := baselineYaw s1 * (1 - CALIBRATION_EMA_ALPHA)
                                         + yaw angles * CALIBRATION_EMA_ALPHA,
                        baselinePitch := baselinePitch s1 * (1 - CALIBRATION_EMA_ALPHA)
                                         + pitch angles * CALIBRATION_EMA_ALPHA\<rparr>)))"

definition analyzeAttention :: "point list \<Rightarrow> state \<Rightarrow> (frame_class \<times> state) option" where
  "analyzeAttention landmarks s =
     (case rawHeadAngles landmarks of
        None \<Rightarrow> None
      | Some angles \<Rightarrow>
          (let yawDeviation = \<bar>yaw angles - baselineYaw s\<bar>;
               pitchDeviation = \<bar>pitch angles - baselinePitch s\<bar>;
               lastYaw = (if length (yawHistory s) > 0 then last (yawHistory s) else yawDeviation);
               lastPitch = (if length (pitchHistory s) > 0 then last (pitchHistory s)
                            else pitchDeviation);
               smoothedYaw = STABILIZATION_EMA_ALPHA * yawDeviation
                             + (1 - STABILIZATION_EMA_ALPHA) * lastYaw;
               smoothedPitch = STABILIZATION_EMA_ALPHA * pitchDeviation
                               + (1 - STABILIZATION_EMA_ALPHA) * lastPitch;
               s1 = s\<lparr>yawHistory := push_history (yawHistory s) smoothedYaw,
                       pitchHistory := push_history (pitchHistory s) smoothedPitch\<rparr>;
               yawThreshold = max ATTENTION_YAW_THRESHOLD_BASE
                                (baselineYaw s * ATTENTION_YAW_THRESHOLD_MULTIPLIER
                                 + ATTENTION_YAW_THRESHOLD_OFFSET);
               pitchThreshold = max ATTENTION_PITCH_THRESHOLD_BASE
                                  (baselinePitch s * ATTENTION_PITCH_THRESHOLD_MULTIPLIER
                                   + ATTENTION_PITCH_THRESHOLD_OFFSET)
           in Some (if smoothedYaw > yawThreshold \<or> smoothedPitch > pitchThreshold
                    then Distracted else Focused, s1)))"

definition analyzeGaze :: "point list \<Rightarrow> state \<Rightarrow> frame_class \<times> state" where
  "analyzeGaze landmarks s =
     (case avgGaze landmarks of
        None \<Rightarrow> (Focused, s)
      | Some g \<Rightarrow>
          (let gazeDeviation = \<bar>g - baselineGaze s\<bar>;
               lastGaze = (if length (gazeHistory s) > 0 then last (gazeHistory s)
                           else gazeDeviation);
               smoothedGaze = STABILIZATION_EMA_ALPHA * gazeDeviation
                              + (1 - STABILIZATION_EMA_ALPHA) * lastGaze;
               s1 = s\<lparr>gazeHistory := push_history (gazeHistory s) smoothedGaze\<rparr>;
               gazeThreshold = max GAZE_THRESHOLD_BASE
                                 (baselineGaze s * GAZE_THRESHOLD_MULTIPLIER
                                  + GAZE_THRESHOLD_OFFSET)
           in (if smoothedGaze > gazeThreshold then Distracted else Focused, s1)))"

text \<open>
  The stabilisation block that ends \<^verbatim>\<open>onFaceMeshResults\<close>, from the two per-frame
  classifications.
\<close>

definition stabilizeAttention :: "frame_class \<Rightarrow> frame_class \<Rightarrow> int \<Rightarrow> state \<Rightarrow> state" where
  "stabilizeAttention attention gaze now s =
     (if attention = Distracted \<or> gaze = Distracted then
        (let s1 = s\<lparr>distractionCounter := distractionCounter s + 1, focusCounter := 0\<rparr>;
             s2 = (if distractionStartTime s1 = None then s1\<lparr>distractionStartTime := Some now\<rparr>
                   else s1)
         in if distractionCounter s2 \<ge> STABILIZATION_THRESHOLD then
              (let distractionDuration =
                     now - (case distractionStartTime s2 of None \<Rightarrow> 0 | Some t \<Rightarrow> t)
               in if distractionDuration \<ge> ATTENTION_MIN_DISTRACTION_DURATION
                     \<and> lastAttentionState s2 \<noteq> AttDistracted
                  then
                    (let s3 = logEvent ''Sustained distraction detected'' ''violation'' now s2;
                         s4 = s3\<lparr>lastAttentionState := AttDistracted\<rparr>
                     in addToSessionLog
                          (Attention_change AttDistracted (Some distractionDuration)
                             (Some (if attention = Distracted then ''head_movement''
                                    else ''gaze_shift''))) now s4)
                  else s2)
            else s2)
      else
        (let s1 = s\<lparr>focusCounter := focusCounter s + 1, distractionCounter := 0,
                    distractionStartTime := None\<rparr>
         in if focusCounter s1 \<ge> STABILIZATION_THRESHOLD \<and> lastAttentionState s1 \<noteq> AttFocused
            then
              (let s2 = logEvent ''Focus restored'' ''info'' now s1;
                   s3 = s2\<lparr>lastAttentionState := AttFocused\<rparr>
               in addToSessionLog (Attention_change AttFocused None None) now s3)
            else s1))"

text \<open>
  \<open>multiFaceLandmarks\<close> is \<^verbatim>\<open>results.multiFaceLandmarks\<close>, of which only the first
  landmark set is read. A \<^verbatim>\<open>TypeError\<close> leaves the object as it was when the error
  was thrown: \<open>Inl\<close> carries that state. On the frame that ends calibration the completion
  is logged before the analysis can throw.
\<close>

definition onFaceMeshResults ::
  "point list list \<Rightarrow> int \<Rightarrow> state \<Rightarrow> (js_error \<times> state) + state"
where
  "onFaceMeshResults multiFaceLandmarks now s =
     (if \<not> isMonitoring s then Inr s
      else
        (case multiFaceLandmarks of
           [] \<Rightarrow> Inr s
         | landmarks # _ \<Rightarrow>
             if calibrationFrames s < CALIBRATION_MAX_FRAMES then
               (case calibrateBaseline landmarks s of
                  None \<Rightarrow> Inl (TypeError, s)
                | Some s1 \<Rightarrow> Inr (s1\<lparr>calibrationFrames := calibrationFrames s1 + 1\<rparr>))
             else
               (let s1 = (if calibrationFrames s = CALIBRATION_MAX_FRAMES then
                            (let s2 = logEvent ''Calibration complete - Monitoring attention''
                                        ''info'' now s;
                                 s3 = addToSessionLog
                                        (Calibration_complete (baselineYaw s2) (baselinePitch s2)
                                           (baselineGaze s2)) now s2
                             in s3\<lparr>calibrationFrames := calibrationFrames s3 + 1\<rparr>)
                          else s)
                in case analyzeAttention landmarks s1 of
                     None \<Rightarrow> Inl (TypeError, s1)
                   | Some (attention, s2) \<Rightarrow>
                       (case analyzeGaze landmarks s2 of
                          (gaze, s3) \<Rightarrow> Inr (stabilizeAttention attention gaze now s3)))))"

section \<open>Runs of a ProctoringSystem object\<close>

text \<open>
  What can happen to an object after its construction: a call of one of its methods, or one
  of the callbacks it registered. A \<^verbatim>\<open>processVideo\<close> tick is the sequence of a
  detection callback, a mesh callback and the recognition stage; a stop request may arrive
  between them. An exception in the mesh callback is caught further up and the object lives
  on in the state the exception left.
\<close>

datatype operation =
    StartMonitoring int
  | StartMonitoringFailed int
  | StopMonitoring int
  | FaceDetectionResults nat int
  | FaceMeshResults "point list list" int
  | Recognition detection_result int
  | LogEvent string string int
  | ToBlobCallback bool int

definition state_of :: "(js_error \<times> state) + state \<Rightarrow> state" where
  "state_of r = (case r of Inl (e, s) \<Rightarrow> s | Inr s \<Rightarrow> s)"

fun step :: "state \<Rightarrow> operation \<Rightarrow> state" where
  "step s (StartMonitoring now) = startMonitoring now s"
| "step s (StartMonitoringFailed now) = startMonitoring_failed now s"
| "step s (StopMonitoring now) = stopMonitoring now s"
| "step s (FaceDetectionResults faceCount now) = onFaceDetectionResults faceCount now s"
| "step s (FaceMeshResults multiFaceLandmarks now) =
     state_of (onFaceMeshResults multiFaceLandmarks now s)"
| "step s (Recognition detection now) = processVideo_recognition detection now s"
| "step s (LogEvent message type now) = logEvent message type now s"
| "step s (ToBlobCallback blob now) = toBlobCallback blob now s"

definition run :: "state \<Rightarrow> operation list \<Rightarrow> state" where
  "run s ops = foldl step s ops"

section \<open>Auxiliary notions for the statements\<close>

text \<open>The two tests that \<^verbatim>\<open>logEvent\<close> makes on a violation.\<close>

definition attention_message :: "string \<Rightarrow> bool" where
  "attention_message m = (str_includes m ''distraction'' \<or> str_includes m ''looking away'')"

definition capture_accepted :: "int \<Rightarrow> state \<Rightarrow> bool" where
  "capture_accepted now s = (FRAME_CAPTURE_SAVE_INTERVAL \<le> now - lastViolationFrameSave s)"

text \<open>The transition out of calibration, as \<^verbatim>\<open>onFaceMeshResults\<close> performs it.\<close>

definition calibration_transition :: "int \<Rightarrow> state \<Rightarrow> state" where
  "calibration_transition now s =
     (if calibrationFrames s = CALIBRATION_MAX_FRAMES then
        (let s2 = logEvent ''Calibration complete - Monitoring attention'' ''info'' now s;
             s3 = addToSessionLog
                    (Calibration_complete (baselineYaw s2) (baselinePitch s2) (baselineGaze s2))
                    now s2
         in s3\<lparr>calibrationFrames := calibrationFrames s3 + 1\<rparr>)
      else s)"

definition counters_ok :: "state \<Rightarrow> bool" where
  "counters_ok s = (attentionViolations s \<le> totalViolations s)"

text \<open>The \<^verbatim>\<open>face_count_change\<close> entries of a structured log, as pairs (previous, current).\<close>

fun face_count_changes :: "session_log list \<Rightarrow> (nat \<times> nat) list" where
  "face_count_changes [] = []"
| "face_count_changes (e # es) =
     (case log_entry e of
        Face_count_change previous_count current_count \<Rightarrow>
          (previous_count, current_count) # face_count_changes es
      | _ \<Rightarrow> face_count_changes es)"

text \<open>
  A session on a fresh object: no enrolled descriptors are stored, the object is constructed
  at time 0 and started at time 1000.
\<close>

definition fresh_session :: state where
  "fresh_session = startMonitoring 1000 (constructor (\<lambda>_. None :: unit option) (\<lambda>_. None) None 0)"

text \<open>The face counts 1, 1, 0, 0, 1, 2, 1 delivered to the presence handler at seven times.\<close>

definition presence_sequence :: "int \<Rightarrow> int \<Rightarrow> int \<Rightarrow> int \<Rightarrow> int \<Rightarrow> int \<Rightarrow> int \<Rightarrow> operation list" where
  "presence_sequence t1 t2 t3 t4 t5 t6 t7 =
     [FaceDetectionResults 1 t1, FaceDetectionResults 1 t2, FaceDetectionResults 0 t3,
      FaceDetectionResults 0 t4, FaceDetectionResults 1 t5, FaceDetectionResults 2 t6,
      FaceDetectionResults 1 t7]"

text \<open>One step of the calibration average, \<^verbatim>\<open>baseline * (1 - alpha) + raw * alpha\<close>.\<close>

definition ema_step :: "real \<Rightarrow> real \<Rightarrow> real" where
  "ema_step b v = b * (1 - CALIBRATION_EMA_ALPHA) + v * CALIBRATION_EMA_ALPHA"

text \<open>An identity verifier that has no descriptors and has never run.\<close>

definition verifier_inert :: "state \<Rightarrow> bool" where
  "verifier_inert s =
     (enrolledDescriptors s = None \<and> \<not> faceRecognitionStarted s
      \<and> unauthorizedCounter s = 0 \<and> authorizedCounter s = 0
      \<and> lastPersonState s = PersonUnknown)"

text \<open>
  The Euclidean distance of two vectors of one length, the least distance from a descriptor
  to the enrolled ones, and the link between the identity counters and the confirmed person
  state.
\<close>

definition euclid :: "real list \<Rightarrow> real list \<Rightarrow> real" where
  "euclid a b = sqrt (\<Sum>(u, v)\<leftarrow>zip a b. (u - v)\<^sup>2)"

definition min_enrolled_distance :: "real list list \<Rightarrow> real list \<Rightarrow> real" where
  "min_enrolled_distance refs d = Min ((\<lambda>r. euclid r d) ` set refs)"

definition identity_ok :: "state \<Rightarrow> bool" where
  "identity_ok s =
     ((STABILIZATION_THRESHOLD \<le> unauthorizedCounter s \<longrightarrow> lastPersonState s = PersonUnauthorized)
      \<and> (STABILIZATION_THRESHOLD \<le> authorizedCounter s \<longrightarrow> lastPersonState s = PersonAuthorized))"

text \<open>
  A session with one enrolled descriptor, one face in view and two recognition cycles that
  both saw a descriptor at distance 1 from the enrolled one.
\<close>

definition enrolled_session :: state where
  "enrolled_session =
     run (constructor (\<lambda>_. Some ()) (\<lambda>_. Some [[0, 0]]) (Some ''[[0,0]]'') 0)
       [StartMonitoring 1000, FaceDetectionResults 1 1100,
        Recognition (Detection [1, 0]) 2500, Recognition (Detection [1, 0]) 12500]"

text \<open>
  The operations of one session between its start and its stop: the two frame callbacks (a
  mesh frame carrying the landmarks 1, 33 and 263, as MediaPipe delivers them), the
  recognition stage and the blob callback.
\<close>

fun session_op :: "operation \<Rightarrow> bool" where
  "session_op (FaceDetectionResults faceCount now) = True"
| "session_op (FaceMeshResults [] now) = True"
| "session_op (FaceMeshResults (landmarks # rest) now) = (rawHeadAngles landmarks \<noteq> None)"
| "session_op (Recognition detection now) = True"
| "session_op (ToBlobCallback blob now) = True"
| "session_op (StartMonitoring now) = False"
| "session_op (StartMonitoringFailed now) = False"
| "session_op (StopMonitoring now) = False"
| "session_op (LogEvent message type now) = False"

text \<open>The landmark sets of the mesh callbacks of a run, in order (first face only).\<close>

fun landmark_frames :: "operation list \<Rightarrow> point list list" where
  "landmark_frames [] = []"
| "landmark_frames (FaceMeshResults (landmarks # rest) now # ops) = landmarks # landmark_frames ops"
| "landmark_frames (op # ops) = landmark_frames ops"

text \<open>The \<^verbatim>\<open>calibration_complete\<close> entries of a structured log.\<close>

fun is_calibration_complete :: "log_fields \<Rightarrow> bool" where
  "is_calibration_complete (Calibration_complete y p g) = True"
| "is_calibration_complete other = False"

definition calibration_completes :: "session_log list \<Rightarrow> log_fields list" where
  "calibration_completes logs = filter is_calibration_complete (map log_entry logs)"

text \<open>
  The raw samples of a list of landmark sets: yaw and pitch of every set that has the three
  head landmarks, the averaged gaze ratio of every set where it is computable.
\<close>

definition yaw_samples :: "point list list \<Rightarrow> real list" where
  "yaw_samples frames = List.map_filter (\<lambda>l. map_option yaw (rawHeadAngles l)) frames"

definition pitch_samples :: "point list list \<Rightarrow> real list" where
  "pitch_samples frames = List.map_filter (\<lambda>l. map_option pitch (rawHeadAngles l)) frames"

definition gaze_samples :: "point list list \<Rightarrow> real list" where
  "gaze_samples frames = List.map_filter avgGaze frames"

text \<open>
  The closed form of the exponential moving average of the samples \<open>xs\<close> with factor
  \<open>\<alpha>\<close>, started from \<open>b\<close>.
\<close>

definition ema_closed :: "real \<Rightarrow> real \<Rightarrow> real list \<Rightarrow> real" where
  "ema_closed \<alpha> b xs =
     (1 - \<alpha>) ^ length xs * b + (\<Sum>i<length xs. \<alpha> * (1 - \<alpha>) ^ (length xs - 1 - i) * xs ! i)"

text \<open>What the presence handler, the recognition stage and the blob callback leave alone.\<close>

definition calibration_untouched :: "state \<Rightarrow> state \<Rightarrow> bool" where
  "calibration_untouched s s' =
     (isMonitoring s' = isMonitoring s \<and> calibrationFrames s' = calibrationFrames s
      \<and> baselineYaw s' = baselineYaw s \<and> baselinePitch s' = baselinePitch s
      \<and> baselineGaze s' = baselineGaze s
      \<and> calibration_completes (sessionLogs s') = calibration_completes (sessionLogs s))"

text \<open>
  What holds of a session after the landmark sets \<open>fr\<close> have been delivered to an object
  that was in state \<open>s0\<close> when the session started.
\<close>

definition calibration_inv :: "state \<Rightarrow> point list list \<Rightarrow> state \<Rightarrow> bool" where
  "calibration_inv s0 fr s' =
     (isMonitoring s' \<and> calibrationFrames s' = min (length fr) 46
      \<and> baselineYaw s' = ema_closed CALIBRATION_EMA_ALPHA (baselineYaw s0) (yaw_samples (take 45 fr))
      \<and> baselinePitch s' =
          ema_closed CALIBRATION_EMA_ALPHA (baselinePitch s0) (pitch_samples (take 45 fr))
      \<and> baselineGaze s' =
          ema_closed CALIBRATION_EMA_ALPHA (baselineGaze s0) (gaze_samples (take 45 fr))
      \<and> calibration_completes (sessionLogs s') =
          (if length fr \<le> 45 then []
           else [Calibration_complete (baselineYaw s') (baselinePitch s') (baselineGaze s')]))"

text \<open>
  Concrete landmark sets of 478 points: a face whose nose tip lies between the eyes, and
  the same face with the nose tip moved to the side. Both eyes have zero width, so no gaze
  ratio is computable. \<open>mesh_frames l t0 n\<close> delivers the set \<open>l\<close> \<open>n\<close> times, 33 ms apart.
\<close>

definition still_face :: "point list" where
  "still_face = replicate 478 \<lparr>pt_x = 0.5, pt_y = 0.5\<rparr>"

definition turned_face :: "point list" where
  "turned_face = still_face[1 := \<lparr>pt_x = 0.9, pt_y = 0.5\<rparr>]"

definition mesh_frames :: "point list \<Rightarrow> int \<Rightarrow> nat \<Rightarrow> operation list" where
  "mesh_frames l t0 n = map (\<lambda>k. FaceMeshResults [l] (t0 + 33 * int k)) [0..<n]"

text \<open>
  Two sessions on one object. The first: 45 calibration frames, one frame with the head
  turned, then a stop. The second: a start and 45 calibration frames.
\<close>

definition first_session :: "operation list" where
  "first_session =
     mesh_frames still_face 1033 45 @
     [FaceMeshResults [turned_face] 2518, StopMonitoring 2551]"

definition second_session :: "operation list" where
  "second_session = StartMonitoring 100000 # mesh_frames still_face 100033 45"

text \<open>A distraction episode is open exactly when the distraction counter is not 0.\<close>

definition episode_ok :: "state \<Rightarrow> bool" where
  "episode_ok s = (distractionCounter s = 0 \<longleftrightarrow> distractionStartTime s = None)"

text \<open>
  The raw samples of a landmark set in the words of the specification, written on the
  landmarks themselves: the eye centre is the midpoint of the two outer eye corners (33 and
  263), yaw and pitch are the offsets of the nose tip (1) from it; the gaze ratio of an eye
  is undefined when the eye is narrower than 0.01 and is the offset of the iris from the
  outer corner divided by the eye width otherwise; the gaze sample is the mean of the left
  ratio (iris 468, corners 133 and 33) and the right ratio (iris 473, corners 362 and 263),
  undefined when either is or when the iris landmarks are absent.
\<close>

definition spec_raw_yaw :: "point list \<Rightarrow> real" where
  "spec_raw_yaw l = pt_x (l ! 1) - (pt_x (l ! 33) + pt_x (l ! 263)) / 2"

definition spec_raw_pitch :: "point list \<Rightarrow> real" where
  "spec_raw_pitch l = pt_y (l ! 1) - (pt_y (l ! 33) + pt_y (l ! 263)) / 2"

definition spec_gaze_ratio :: "point \<Rightarrow> point \<Rightarrow> point \<Rightarrow> real option" where
  "spec_gaze_ratio iris eyeInner eyeOuter =
     (if \<bar>pt_x eyeInner - pt_x eyeOuter\<bar> < 0.01 then None
      else Some ((pt_x iris - pt_x eyeOuter) / \<bar>pt_x eyeInner - pt_x eyeOuter\<bar>))"

definition spec_raw_gaze :: "point list \<Rightarrow> real option" where
  "spec_raw_gaze l =
     (if length l \<le> 473 then None
      else (case spec_gaze_ratio (l ! 468) (l ! 133) (l ! 33) of
              None \<Rightarrow> None
            | Some left \<Rightarrow>
                (case spec_gaze_ratio (l ! 473) (l ! 362) (l ! 263) of
                   None \<Rightarrow> None
                 | Some right \<Rightarrow> Some ((left + right) / 2))))"

definition spec_gaze_samples :: "point list list \<Rightarrow> real list" where
  "spec_gaze_samples frames = List.map_filter spec_raw_gaze frames"

text \<open>
  Two more landmark sets of 478 points, with eyes 0.1 wide: a face looking ahead, whose gaze
  ratios are 0.8 and -0.4, and the same face with the nose tip moved to the side.
\<close>

definition gazing_face :: "point list" where
  "gazing_face =
     still_face[33 := \<lparr>pt_x = 0.3, pt_y = 0.5\<rparr>, 133 := \<lparr>pt_x = 0.4, pt_y = 0.5\<rparr>,
                263 := \<lparr>pt_x = 0.7, pt_y = 0.5\<rparr>, 362 := \<lparr>pt_x = 0.6, pt_y = 0.5\<rparr>,
                468 := \<lparr>pt_x = 0.38, pt_y = 0.5\<rparr>, 473 := \<lparr>pt_x = 0.66, pt_y = 0.5\<rparr>]"

definition glancing_face :: "point list" where
  "glancing_face = gazing_face[1 := \<lparr>pt_x = 0.9, pt_y = 0.5\<rparr>]"

text \<open>
  One object used for two sessions: a single calibration frame with the head turned, a stop,
  then a second start followed by 45 calibration frames of the face looking ahead.
\<close>

definition reused_object_run :: "operation list" where
  "reused_object_run =
     [FaceMeshResults [glancing_face] 1033, StopMonitoring 1066, StartMonitoring 100000]
     @ mesh_frames gazing_face 100033 45"

section \<open>Basic facts about the log functions\<close>

lemma str_includes_iff: "str_includes s sub \<longleftrightarrow> (\<exists>pre post. s = pre @ sub @ post)"
proof (induction s)
  case Nil
  then show ?case by auto
next
  case (Cons c cs)
  have "sublist sub (c # cs) \<longleftrightarrow> prefix sub (c # cs) \<or> sublist sub cs"
    by (rule sublist_Cons_right)
  moreover have "\<And>xs. sublist sub xs \<longleftrightarrow> (\<exists>pre post. xs = pre @ sub @ post)"
    by (simp add: sublist_def)
  ultimately show ?case using Cons.IH by simp
qed

text \<open>\<^verbatim>\<open>logEvent\<close> as one update of the object.\<close>

lemma logEvent_eq:
  "logEvent m t now s =
     s\<lparr>sessionEvents := sessionEvents s @ [\<lparr>ev_timestamp = now, ev_message = m, ev_type = t\<rparr>],
       totalViolations := totalViolations s + (if t = ''violation'' then 1 else 0),
       attentionViolations := attentionViolations s +
         (if t = ''violation'' \<and> attention_message m then 1 else 0),
       lastViolationFrameSave :=
         (if t = ''violation'' \<and> capture_accepted now s then now else lastViolationFrameSave s),
       pendingCaptures :=
         (if t = ''violation'' \<and> capture_accepted now s then pendingCaptures s @ [m]
          else pendingCaptures s),
       sessionLogs := sessionLogs s @
         [\<lparr>log_entry = Event_entry t m, log_timestamp = now,
           log_session_id = sessionStartTime s\<rparr>]\<rparr>"
  by (simp add: logEvent_def Let_def saveViolationFrame_def addToSessionLog_def
      attention_message_def capture_accepted_def)

lemma face_count_changes_append [simp]:
  "face_count_changes (xs @ ys) = face_count_changes xs @ face_count_changes ys"
  by (induction xs) (auto split: log_fields.splits)

lemma onFaceMeshResults_idle:
  "\<not> isMonitoring s \<or> ls = [] \<Longrightarrow> onFaceMeshResults ls now s = Inr s"
  by (auto simp add: onFaceMeshResults_def)

lemma onFaceMeshResults_calibrating:
  "isMonitoring s \<Longrightarrow> calibrationFrames s < CALIBRATION_MAX_FRAMES \<Longrightarrow>
   onFaceMeshResults (l # rest) now s =
     (case calibrateBaseline l s of
        None \<Rightarrow> Inl (TypeError, s)
      | Some s1 \<Rightarrow> Inr (s1\<lparr>calibrationFrames := calibrationFrames s1 + 1\<rparr>))"
  by (simp add: onFaceMeshResults_def)

lemma onFaceMeshResults_monitoring:
  "isMonitoring s \<Longrightarrow> \<not> calibrationFrames s < CALIBRATION_MAX_FRAMES \<Longrightarrow>
   onFaceMeshResults (l # rest) now s =
     (case analyzeAttention l (calibration_transition now s) of
        None \<Rightarrow> Inl (TypeError, calibration_transition now s)
      | Some (attention, s2) \<Rightarrow>
          (case analyzeGaze l s2 of
             (gaze, s3) \<Rightarrow> Inr (stabilizeAttention attention gaze now s3)))"
  by (simp add: onFaceMeshResults_def calibration_transition_def split: option.splits)

text \<open>The mesh handler, case by case.\<close>

lemma calibrateBaseline_eq:
  "calibrateBaseline l s =
     (case rawHeadAngles l of
        None \<Rightarrow> None
      | Some angles \<Rightarrow>
          Some (s\<lparr>baselineGaze := (case avgGaze l of None \<Rightarrow> baselineGaze s
                                     | Some g \<Rightarrow> ema_step (baselineGaze s) g),
                  baselineYaw := ema_step (baselineYaw s) (yaw angles),
                  baselinePitch := ema_step (baselinePitch s) (pitch angles)\<rparr>))"
  by (simp add: calibrateBaseline_def ema_step_def Let_def split: option.splits)

lemma analyzeAttention_None: "analyzeAttention l s = None \<longleftrightarrow> rawHeadAngles l = None"
  by (simp add: analyzeAttention_def Let_def split: option.splits)

lemma analyzeAttention_Some:
  "analyzeAttention l s = Some (a, s') \<Longrightarrow> \<exists>y p. s' = s\<lparr>yawHistory := y, pitchHistory := p\<rparr>"
  by (auto simp add: analyzeAttention_def Let_def split: option.splits)

lemma analyzeGaze_shape: "\<exists>h. snd (analyzeGaze l s) = s\<lparr>gazeHistory := h\<rparr>"
proof (cases "avgGaze l")
  case None
  then show ?thesis
    by (intro exI [of _ "gazeHistory s"]) (simp add: analyzeGaze_def)
next
  case (Some g)
  then show ?thesis by (auto simp add: analyzeGaze_def Let_def)
qed

lemma onFaceMeshResults_cases:
  obtains
    (idle) "\<not> isMonitoring s \<or> ls = []" "state_of (onFaceMeshResults ls now s) = s"
  | (calibration_throws) l rest where "ls = l # rest" "isMonitoring s"
      "calibrationFrames s < CALIBRATION_MAX_FRAMES" "rawHeadAngles l = None"
      "state_of (onFaceMeshResults ls now s) = s"
  | (calibration) l rest angles where "ls = l # rest" "isMonitoring s"
      "calibrationFrames s < CALIBRATION_MAX_FRAMES" "rawHeadAngles l = Some angles"
      "state_of (onFaceMeshResults ls now s) =
         s\<lparr>baselineGaze := (case avgGaze l of None \<Rightarrow> baselineGaze s
                              | Some g \<Rightarrow> ema_step (baselineGaze s) g),
           baselineYaw := ema_step (baselineYaw s) (yaw angles),
           baselinePitch := ema_step (baselinePitch s) (pitch angles),
           calibrationFrames := calibrationFrames s + 1\<rparr>"
  | (analysis_throws) l rest where "ls = l # rest" "isMonitoring s"
      "\<not> calibrationFrames s < CALIBRATION_MAX_FRAMES" "rawHeadAngles l = None"
      "state_of (onFaceMeshResults ls now s) = calibration_transition now s"
  | (analysis) l rest a g y p h where "ls = l # rest" "isMonitoring s"
      "\<not> calibrationFrames s < CALIBRATION_MAX_FRAMES" "rawHeadAngles l \<noteq> None"
      "state_of (onFaceMeshResults ls now s) =
         stabilizeAttention a g now
           ((calibration_transition now s)\<lparr>yawHistory := y, pitchHistory := p, gazeHistory := h\<rparr>)"
proof (cases "\<not> isMonitoring s \<or> ls = []")
  case True
  then show ?thesis using idle by (simp add: onFaceMeshResults_idle state_of_def)
next
  case False
  then obtain l rest where ls: "ls = l # rest" and mon: "isMonitoring s"
    by (cases ls) auto
  show ?thesis
  proof (cases "calibrationFrames s < CALIBRATION_MAX_FRAMES")
    case True
    show ?thesis
    proof (cases "rawHeadAngles l")
      case None
      then show ?thesis
        using calibration_throws [OF ls mon True]
        by (simp add: ls onFaceMeshResults_calibrating [OF mon True] state_of_def
            calibrateBaseline_eq)
    next
      case (Some angles)
      then show ?thesis
        using calibration [OF ls mon True Some]
        by (simp add: ls onFaceMeshResults_calibrating [OF mon True] state_of_def
            calibrateBaseline_eq)
    qed
  next
    case False
    let ?s1 = "calibration_transition now s"
    show ?thesis
    proof (cases "analyzeAttention l ?s1")
      case None
      then have "rawHeadAngles l = None" by (simp add: analyzeAttention_None)
      then show ?thesis
        using analysis_throws [OF ls mon False] None
        by (simp add: ls onFaceMeshResults_monitoring [OF mon False] state_of_def)
    next
      case (Some q)
      obtain a s2 where q: "q = (a, s2)" by (cases q)
      from Some q obtain y p where s2: "s2 = ?s1\<lparr>yawHistory := y, pitchHistory := p\<rparr>"
        using analyzeAttention_Some by blast
      obtain g s3 where g: "analyzeGaze l s2 = (g, s3)" by (cases "analyzeGaze l s2")
      obtain h where s3: "s3 = s2\<lparr>gazeHistory := h\<rparr>"
        using analyzeGaze_shape [of l s2] g by auto
      have ra: "rawHeadAngles l \<noteq> None"
        using Some analyzeAttention_None [of l ?s1] by simp
      have "state_of (onFaceMeshResults ls now s) = stabilizeAttention a g now s3"
        using Some q g by (simp add: ls onFaceMeshResults_monitoring [OF mon False] state_of_def)
      then have "state_of (onFaceMeshResults ls now s) =
         stabilizeAttention a g now
           (?s1\<lparr>yawHistory := y, pitchHistory := p, gazeHistory := h\<rparr>)"
        using s2 s3 by simp
      then show ?thesis by (rule analysis [OF ls mon False ra])
    qed
  qed
qed

text \<open>The mesh handler never touches the fields of the identity verifier or of presence.\<close>

lemma stabilizeAttention_identity_fields:
  "enrolledDescriptors (stabilizeAttention a g now s) = enrolledDescriptors s"
  "faceRecognitionStarted (stabilizeAttention a g now s) = faceRecognitionStarted s"
  "unauthorizedCounter (stabilizeAttention a g now s) = unauthorizedCounter s"
  "authorizedCounter (stabilizeAttention a g now s) = authorizedCounter s"
  "lastPersonState (stabilizeAttention a g now s) = lastPersonState s"
  "lastFaceCount (stabilizeAttention a g now s) = lastFaceCount s"
  "isMonitoring (stabilizeAttention a g now s) = isMonitoring s"
  by (simp_all add: stabilizeAttention_def Let_def logEvent_eq addToSessionLog_def)

lemma calibration_transition_identity_fields:
  "enrolledDescriptors (calibration_transition now s) = enrolledDescriptors s"
  "faceRecognitionStarted (calibration_transition now s) = faceRecognitionStarted s"
  "unauthorizedCounter (calibration_transition now s) = unauthorizedCounter s"
  "authorizedCounter (calibration_transition now s) = authorizedCounter s"
  "lastPersonState (calibration_transition now s) = lastPersonState s"
  "lastFaceCount (calibration_transition now s) = lastFaceCount s"
  "isMonitoring (calibration_transition now s) = isMonitoring s"
  by (simp_all add: calibration_transition_def Let_def logEvent_eq addToSessionLog_def)

lemma onFaceMeshResults_identity_fields:
  "enrolledDescriptors (state_of (onFaceMeshResults ls now s)) = enrolledDescriptors s"
  "faceRecognitionStarted (state_of (onFaceMeshResults ls now s)) = faceRecognitionStarted s"
  "unauthorizedCounter (state_of (onFaceMeshResults ls now s)) = unauthorizedCounter s"
  "authorizedCounter (state_of (onFaceMeshResults ls now s)) = authorizedCounter s"
  "lastPersonState (state_of (onFaceMeshResults ls now s)) = lastPersonState s"
  "lastFaceCount (state_of (onFaceMeshResults ls now s)) = lastFaceCount s"
  "isMonitoring (state_of (onFaceMeshResults ls now s)) = isMonitoring s"
  by (cases ls now s rule: onFaceMeshResults_cases;
      simp add: stabilizeAttention_identity_fields calibration_transition_identity_fields)+

section \<open>Violation accounting\<close>

text \<open>
  C7. A call of \<^verbatim>\<open>logEvent\<close> with the type \<^verbatim>\<open>'violation'\<close> adds exactly 1 to
  \<open>totalViolations\<close>, and adds 1 to \<open>attentionViolations\<close> exactly when the message has
  \<^verbatim>\<open>distraction\<close> or \<^verbatim>\<open>looking away\<close> as a substring (and 0 otherwise). The message
  ``Sustained distraction detected'' raises both counters, the message ``Wrong person
  detected'' raises only \<open>totalViolations\<close>.
\<close>

theorem logEvent_violation_counters:
  "totalViolations (logEvent message ''violation'' now s) = totalViolations s + 1
   \<and> attentionViolations (logEvent message ''violation'' now s) =
       attentionViolations s +
         (if (\<exists>pre post. message = pre @ ''distraction'' @ post)
             \<or> (\<exists>pre post. message = pre @ ''looking away'' @ post) then 1 else 0)
   \<and> totalViolations (logEvent ''Sustained distraction detected'' ''violation'' now s)
       = totalViolations s + 1
   \<and> attentionViolations (logEvent ''Sustained distraction detected'' ''violation'' now s)
       = attentionViolations s + 1
   \<and> totalViolations (logEvent ''Wrong person detected'' ''violation'' now s)
       = totalViolations s + 1
   \<and> attentionViolations (logEvent ''Wrong person detected'' ''violation'' now s)
       = attentionViolations s"
proof -
  have tot: "\<And>m. totalViolations (logEvent m ''violation'' now s) = totalViolations s + 1"
    by (simp add: logEvent_eq)
  have att: "\<And>m. attentionViolations (logEvent m ''violation'' now s) =
       attentionViolations s +
         (if str_includes m ''distraction'' \<or> str_includes m ''looking away'' then 1 else 0)"
    by (simp add: logEvent_eq attention_message_def)
  have a1: "str_includes ''Sustained distraction detected'' ''distraction''" by simp
  have a2: "\<not> str_includes ''Wrong person detected'' ''distraction''" by simp
  have a3: "\<not> str_includes ''Wrong person detected'' ''looking away''" by simp
  show ?thesis
    using tot att [of message] att [of "''Sustained distraction detected''"]
      att [of "''Wrong person detected''"] a1 a2 a3
    by (simp add: str_includes_iff)
qed

section \<open>The two violation counters\<close>

lemma counters_ok_logEvent: "counters_ok s \<Longrightarrow> counters_ok (logEvent m t now s)"
  by (simp add: counters_ok_def logEvent_eq)

lemma counters_ok_startMonitoring: "counters_ok s \<Longrightarrow> counters_ok (startMonitoring now s)"
  by (simp add: counters_ok_def startMonitoring_def Let_def logEvent_eq addToSessionLog_def)

lemma counters_ok_stopMonitoring: "counters_ok s \<Longrightarrow> counters_ok (stopMonitoring now s)"
  by (simp add: counters_ok_def stopMonitoring_def Let_def logEvent_eq addToSessionLog_def)

lemma counters_ok_toBlobCallback: "counters_ok s \<Longrightarrow> counters_ok (toBlobCallback b now s)"
  by (simp add: counters_ok_def toBlobCallback_def Let_def addToSessionLog_def split: list.splits)

lemma counters_ok_onFaceDetectionResults:
  "counters_ok s \<Longrightarrow> counters_ok (onFaceDetectionResults n now s)"
  by (simp add: counters_ok_def onFaceDetectionResults_def resetFaceRecognitionCounters_def Let_def
      logEvent_eq addToSessionLog_def)

lemma counters_ok_performFaceRecognition:
  "counters_ok s \<Longrightarrow> counters_ok (performFaceRecognition d now s)"
  by (simp add: counters_ok_def performFaceRecognition_def resetFaceRecognitionCounters_def Let_def
      logEvent_eq addToSessionLog_def split: detection_result.splits option.splits)

lemma counters_ok_processVideo_recognition:
  "counters_ok s \<Longrightarrow> counters_ok (processVideo_recognition d now s)"
  using counters_ok_performFaceRecognition [of "s\<lparr>lastFaceRecogTime := now, faceRecognitionStarted := True\<rparr>" d now]
  by (simp add: processVideo_recognition_def Let_def counters_ok_def split: option.splits)

lemma calibrateBaseline_counters:
  "calibrateBaseline l s = Some s' \<Longrightarrow>
     totalViolations s' = totalViolations s \<and> attentionViolations s' = attentionViolations s"
  by (auto simp: calibrateBaseline_def Let_def split: option.splits)

lemma analyzeAttention_counters:
  "analyzeAttention l s = Some (a, s') \<Longrightarrow>
     totalViolations s' = totalViolations s \<and> attentionViolations s' = attentionViolations s"
  by (auto simp: analyzeAttention_def Let_def split: option.splits)

lemma analyzeGaze_counters:
  "analyzeGaze l s = (g, s') \<Longrightarrow>
     totalViolations s' = totalViolations s \<and> attentionViolations s' = attentionViolations s"
  by (auto simp: analyzeGaze_def Let_def split: option.splits)

lemma counters_ok_stabilizeAttention:
  "counters_ok s \<Longrightarrow> counters_ok (stabilizeAttention a g now s)"
  by (simp add: counters_ok_def stabilizeAttention_def Let_def logEvent_eq addToSessionLog_def)

lemma counters_ok_onFaceMeshResults:
  assumes "counters_ok s"
  shows "counters_ok (state_of (onFaceMeshResults ls now s))"
proof (cases "\<not> isMonitoring s \<or> ls = []")
  case True
  then show ?thesis using assms by (simp add: onFaceMeshResults_idle state_of_def)
next
  case False
  then obtain l rest where ls: "ls = l # rest" and mon: "isMonitoring s"
    by (cases ls) auto
  show ?thesis
  proof (cases "calibrationFrames s < CALIBRATION_MAX_FRAMES")
    case True
    show ?thesis
    proof (cases "calibrateBaseline l s")
      case None
      then show ?thesis
        using assms by (simp add: ls onFaceMeshResults_calibrating [OF mon True] state_of_def)
    next
      case (Some s1)
      then show ?thesis
        using assms calibrateBaseline_counters [OF Some]
        by (simp add: ls onFaceMeshResults_calibrating [OF mon True] state_of_def counters_ok_def)
    qed
  next
    case False
    have ok1: "counters_ok (calibration_transition now s)"
      using assms
      by (simp add: calibration_transition_def counters_ok_def Let_def logEvent_eq
          addToSessionLog_def)
    show ?thesis
    proof (cases "analyzeAttention l (calibration_transition now s)")
      case None
      then show ?thesis
        using ok1 by (simp add: ls onFaceMeshResults_monitoring [OF mon False] state_of_def)
    next
      case (Some p)
      obtain a s2 where p: "p = (a, s2)" by (cases p)
      obtain g s3 where g: "analyzeGaze l s2 = (g, s3)" by (cases "analyzeGaze l s2")
      have "counters_ok s3"
        using ok1 analyzeAttention_counters [of l _ a s2] analyzeGaze_counters [OF g] Some p
        by (simp add: counters_ok_def)
      then show ?thesis
        using Some p g counters_ok_stabilizeAttention
        by (simp add: ls onFaceMeshResults_monitoring [OF mon False] state_of_def)
    qed
  qed
qed

lemma counters_ok_step: "counters_ok s \<Longrightarrow> counters_ok (step s op)"
  by (cases op)
    (simp_all add: counters_ok_startMonitoring counters_ok_stopMonitoring counters_ok_logEvent
      startMonitoring_failed_def counters_ok_onFaceDetectionResults counters_ok_onFaceMeshResults
      counters_ok_processVideo_recognition counters_ok_toBlobCallback)

lemma counters_ok_run: "counters_ok s \<Longrightarrow> counters_ok (run s ops)"
  unfolding run_def by (induction ops arbitrary: s) (simp_all add: counters_ok_step)

lemma counters_ok_constructor: "counters_ok (constructor jp conv stored now)"
  by (simp add: constructor_def loadEnrolledFace_def initial_fields_def counters_ok_def
      logEvent_eq split: option.splits)

text \<open>
  C10. On every object, after any sequence of operations since its construction (starts,
  stops, frame handlers, recognition cycles, calls of \<^verbatim>\<open>logEvent\<close>, blob callbacks),
  \<open>attentionViolations\<close> is at most \<open>totalViolations\<close>.
\<close>

theorem attention_le_total:
  "attentionViolations (run (constructor json_parse to_descriptors stored now) ops)
     \<le> totalViolations (run (constructor json_parse to_descriptors stored now) ops)"
  using counters_ok_run [OF counters_ok_constructor] by (simp add: counters_ok_def)

section \<open>Frame-capture throttling\<close>

text \<open>
  C8. A capture request is dropped, with no change of the object at all, when fewer than
  4000 ms have passed since the last accepted one; otherwise it is accepted: its time is
  recorded and one blob is requested from the canvas. Hence, when a violation event arrives
  at least 4000 ms after the last accepted capture, it and a second violation event 1000 ms
  later make exactly one capture request, and it and a second one 5000 ms later make two.
\<close>

theorem capture_throttle:
  "(now - lastViolationFrameSave s < 4000 \<longrightarrow> saveViolationFrame m now s = s)
   \<and> (4000 \<le> now - lastViolationFrameSave s \<longrightarrow>
        saveViolationFrame m now s =
          s\<lparr>lastViolationFrameSave := now, pendingCaptures := pendingCaptures s @ [m]\<rparr>)
   \<and> (4000 \<le> t - lastViolationFrameSave s \<longrightarrow>
        pendingCaptures (logEvent m2 ''violation'' (t + 1000) (logEvent m1 ''violation'' t s))
          = pendingCaptures s @ [m1]
        \<and> pendingCaptures (logEvent m2 ''violation'' (t + 5000) (logEvent m1 ''violation'' t s))
          = pendingCaptures s @ [m1, m2])"
  by (simp add: saveViolationFrame_def logEvent_eq capture_accepted_def
      FRAME_CAPTURE_SAVE_INTERVAL_def)

theorem capture_throttle_witness:
  "saveViolationFrame ''No face detected'' 3000 initial_fields = initial_fields
   \<and> saveViolationFrame ''No face detected'' 5000 initial_fields =
       initial_fields\<lparr>lastViolationFrameSave := 5000, pendingCaptures := [''No face detected'']\<rparr>
   \<and> pendingCaptures (logEvent ''Multiple faces detected'' ''violation'' 6000
         (logEvent ''No face detected'' ''violation'' 5000 initial_fields))
       = [''No face detected'']
   \<and> pendingCaptures (logEvent ''Multiple faces detected'' ''violation'' 10000
         (logEvent ''No face detected'' ''violation'' 5000 initial_fields))
       = [''No face detected'', ''Multiple faces detected'']"
  using capture_throttle [of 3000 initial_fields "''No face detected''" 5000
      "''Multiple faces detected''" "''No face detected''"]
    capture_throttle [of 5000 initial_fields "''No face detected''" 5000
      "''Multiple faces detected''" "''No face detected''"]
  by (simp add: initial_fields_def)

section \<open>What a start resets\<close>

text \<open>
  The fields that \<^verbatim>\<open>startMonitoring\<close> leaves as they are: none of them is assigned
  under its comment ``Reset all tracking states''.
\<close>

lemma startMonitoring_not_reset:
  "totalViolations (startMonitoring now s) = totalViolations s
   \<and> attentionViolations (startMonitoring now s) = attentionViolations s
   \<and> baselineYaw (startMonitoring now s) = baselineYaw s
   \<and> baselinePitch (startMonitoring now s) = baselinePitch s
   \<and> baselineGaze (startMonitoring now s) = baselineGaze s
   \<and> yawHistory (startMonitoring now s) = yawHistory s
   \<and> pitchHistory (startMonitoring now s) = pitchHistory s
   \<and> gazeHistory (startMonitoring now s) = gazeHistory s
   \<and> lastFaceCount (startMonitoring now s) = lastFaceCount s
   \<and> distractionStartTime (startMonitoring now s) = distractionStartTime s
   \<and> lastViolationFrameSave (startMonitoring now s) = lastViolationFrameSave s"
  by (simp add: startMonitoring_def Let_def logEvent_eq addToSessionLog_def)

text \<open>
  C4. The claim is that a start resets every session-scoped entity, the violation counters
  and the presence state among them. On an object whose first session saw two faces and was
  stopped, the second start leaves \<open>totalViolations\<close> at 1 and \<open>lastFaceCount\<close> at 2,
  where the initial values are 0 and 0.
\<close>

theorem restart_keeps_violations:
  "totalViolations (run fresh_session
      [FaceDetectionResults 1 1100, FaceDetectionResults 2 1200, StopMonitoring 1300,
       StartMonitoring 9000]) = 1
   \<and> lastFaceCount (run fresh_session
      [FaceDetectionResults 1 1100, FaceDetectionResults 2 1200, StopMonitoring 1300,
       StartMonitoring 9000]) = 2
   \<and> totalViolations initial_fields = 0 \<and> lastFaceCount initial_fields = 0"
  by (simp add: run_def fresh_session_def constructor_def loadEnrolledFace_def initial_fields_def
      startMonitoring_def stopMonitoring_def onFaceDetectionResults_def
      resetFaceRecognitionCounters_def Let_def logEvent_eq addToSessionLog_def)

section \<open>Presence transitions\<close>

lemma onFaceDetectionResults_effect:
  assumes "isMonitoring s"
  shows "isMonitoring (onFaceDetectionResults n now s)"
    and "lastFaceCount (onFaceDetectionResults n now s) = n"
    and "sessionEvents (onFaceDetectionResults n now s) = sessionEvents s @
          (if n = 0 then
             (if lastFaceCount s \<noteq> 0
              then [\<lparr>ev_timestamp = now, ev_message = ''No face detected'', ev_type = ''violation''\<rparr>]
              else [])
           else if n > 1 then
             (if lastFaceCount s \<le> 1
              then [\<lparr>ev_timestamp = now, ev_message = ''Multiple faces detected'',
                     ev_type = ''violation''\<rparr>]
              else [])
           else
             (if lastFaceCount s \<noteq> 1
              then [\<lparr>ev_timestamp = now, ev_message = ''Single face detected - OK'',
                     ev_type = ''info''\<rparr>]
              else []))"
    and "face_count_changes (sessionLogs (onFaceDetectionResults n now s)) =
           face_count_changes (sessionLogs s) @
             (if lastFaceCount s \<noteq> n then [(lastFaceCount s, n)] else [])"
  using assms
  by (simp_all add: onFaceDetectionResults_def resetFaceRecognitionCounters_def Let_def
      logEvent_eq addToSessionLog_def)

text \<open>
  C6, as amended. For the face counts 1, 1, 0, 0, 1, 2, 1 delivered to the presence handler
  of a monitoring object whose previous count is 1, exactly four events are emitted, in this
  order: ``No face detected'' at the first 0, ``Single face detected - OK'' at the 1 after the
  zeros, ``Multiple faces detected'' at the 2 and ``Single face detected - OK'' at the last
  1; and exactly four \<^verbatim>\<open>face_count_change\<close> entries are appended, (1,0), (0,1), (1,2)
  and (2,1). When the previous count is not 1, as on a fresh object where it is 0, the first
  1 emits one more ``Single face detected - OK'' and one more entry before these.
\<close>

theorem presence_sequence_events:
  assumes "isMonitoring s"
  shows "sessionEvents (run s (presence_sequence t1 t2 t3 t4 t5 t6 t7)) =
           sessionEvents s @
           (if lastFaceCount s = 1 then []
            else [\<lparr>ev_timestamp = t1, ev_message = ''Single face detected - OK'',
                    ev_type = ''info''\<rparr>]) @
           [\<lparr>ev_timestamp = t3, ev_message = ''No face detected'', ev_type = ''violation''\<rparr>,
            \<lparr>ev_timestamp = t5, ev_message = ''Single face detected - OK'', ev_type = ''info''\<rparr>,
            \<lparr>ev_timestamp = t6, ev_message = ''Multiple faces detected'', ev_type = ''violation''\<rparr>,
            \<lparr>ev_timestamp = t7, ev_message = ''Single face detected - OK'', ev_type = ''info''\<rparr>]
         \<and> face_count_changes (sessionLogs (run s (presence_sequence t1 t2 t3 t4 t5 t6 t7))) =
           face_count_changes (sessionLogs s) @
           (if lastFaceCount s = 1 then [] else [(lastFaceCount s, 1)]) @
           [(1, 0), (0, 1), (1, 2), (2, 1)]"
  using assms
  by (simp add: run_def presence_sequence_def onFaceDetectionResults_effect)


theorem presence_sequence_events_witness:
  "isMonitoring (run fresh_session [FaceDetectionResults 1 1050])
   \<and> map ev_message (sessionEvents (run (run fresh_session [FaceDetectionResults 1 1050])
         (presence_sequence 1100 1200 1300 1400 1500 1600 1700))) =
       [''Monitoring session started - Calibrating...'', ''Single face detected - OK'',
        ''No face detected'', ''Single face detected - OK'', ''Multiple faces detected'',
        ''Single face detected - OK'']
   \<and> face_count_changes (sessionLogs (run (run fresh_session [FaceDetectionResults 1 1050])
         (presence_sequence 1100 1200 1300 1400 1500 1600 1700))) =
       [(0, 1), (1, 0), (0, 1), (1, 2), (2, 1)]"
proof -
  have mon: "isMonitoring (run fresh_session [FaceDetectionResults 1 1050])"
    by (simp add: run_def fresh_session_def startMonitoring_def Let_def logEvent_eq
        addToSessionLog_def onFaceDetectionResults_effect)
  have before: "lastFaceCount (run fresh_session [FaceDetectionResults 1 1050]) = 1
    \<and> map ev_message (sessionEvents (run fresh_session [FaceDetectionResults 1 1050])) =
        [''Monitoring session started - Calibrating...'', ''Single face detected - OK'']
    \<and> face_count_changes (sessionLogs (run fresh_session [FaceDetectionResults 1 1050])) =
        [(0, 1)]"
    by (simp add: run_def fresh_session_def startMonitoring_def Let_def logEvent_eq
        addToSessionLog_def onFaceDetectionResults_effect constructor_def loadEnrolledFace_def
        initial_fields_def)
  show ?thesis
    using presence_sequence_events [OF mon, of 1100 1200 1300 1400 1500 1600 1700] mon before
    by simp
qed

text \<open>
  The claim as it stands fails on a fresh session: the sequence emits five events there,
  not four, and appends five \<^verbatim>\<open>face_count_change\<close> entries.
\<close>

theorem presence_sequence_fresh_counterexample:
  "map ev_message (sessionEvents (run fresh_session
       (presence_sequence 1100 1200 1300 1400 1500 1600 1700))) =
     [''Monitoring session started - Calibrating...'', ''Single face detected - OK'',
      ''No face detected'', ''Single face detected - OK'', ''Multiple faces detected'',
      ''Single face detected - OK'']
   \<and> map ev_message (sessionEvents fresh_session) =
     [''Monitoring session started - Calibrating...'']
   \<and> drop 1 (map ev_message (sessionEvents (run fresh_session
       (presence_sequence 1100 1200 1300 1400 1500 1600 1700)))) \<noteq>
     [''No face detected'', ''Single face detected - OK'', ''Multiple faces detected'',
      ''Single face detected - OK'']
   \<and> length (face_count_changes (sessionLogs (run fresh_session
       (presence_sequence 1100 1200 1300 1400 1500 1600 1700)))) = 5
   \<and> face_count_changes (sessionLogs fresh_session) = []"
proof -
  have mon: "isMonitoring fresh_session"
    by (simp add: fresh_session_def startMonitoring_def Let_def logEvent_eq addToSessionLog_def)
  have start: "lastFaceCount fresh_session = 0
    \<and> map ev_message (sessionEvents fresh_session) =
        [''Monitoring session started - Calibrating...'']
    \<and> face_count_changes (sessionLogs fresh_session) = []"
    by (simp add: fresh_session_def startMonitoring_def Let_def logEvent_eq addToSessionLog_def
        constructor_def loadEnrolledFace_def initial_fields_def)
  show ?thesis
    using mon start
    by (simp add: run_def presence_sequence_def onFaceDetectionResults_effect)
qed

section \<open>Malformed enrolled descriptors\<close>

lemma verifier_inert_step: "verifier_inert s \<Longrightarrow> verifier_inert (step s op)"
proof (cases op)
  case (FaceMeshResults ls now)
  assume "verifier_inert s"
  then show ?thesis
    by (simp add: FaceMeshResults verifier_inert_def onFaceMeshResults_identity_fields)
qed (simp_all add: verifier_inert_def startMonitoring_def startMonitoring_failed_def
      stopMonitoring_def onFaceDetectionResults_def resetFaceRecognitionCounters_def
      processVideo_recognition_def toBlobCallback_def Let_def logEvent_eq addToSessionLog_def
      split: list.splits)

lemma verifier_inert_run: "verifier_inert s \<Longrightarrow> verifier_inert (run s ops)"
  unfolding run_def by (induction ops arbitrary: s) (simp_all add: verifier_inert_step)

text \<open>
  C9, as amended. If the persisted string is not valid JSON, the parse error is caught and
  construction completes with the initial field values: no event is appended to the session
  events or to the structured log (the \<^verbatim>\<open>catch\<close> writes to the console only), the
  descriptors stay \<^verbatim>\<open>null\<close>, and after any sequence of operations the recognition
  stage of \<^verbatim>\<open>processVideo\<close> leaves the object as it is, so
  \<^verbatim>\<open>performFaceRecognition\<close> is never invoked and the confirmed person state stays
  unknown.
\<close>

theorem malformed_enrolled_json:
  assumes "stored \<noteq> []" and "json_parse stored = None"
  shows "constructor json_parse to_descriptors (Some stored) now = initial_fields
    \<and> sessionEvents (constructor json_parse to_descriptors (Some stored) now) = []
    \<and> enrolledDescriptors (run (constructor json_parse to_descriptors (Some stored) now) ops) = None
    \<and> \<not> faceRecognitionStarted (run (constructor json_parse to_descriptors (Some stored) now) ops)
    \<and> lastPersonState (run (constructor json_parse to_descriptors (Some stored) now) ops)
        = PersonUnknown
    \<and> processVideo_recognition detection t
        (run (constructor json_parse to_descriptors (Some stored) now) ops)
        = run (constructor json_parse to_descriptors (Some stored) now) ops"
proof -
  have c: "constructor json_parse to_descriptors (Some stored) now = initial_fields"
    using assms by (simp add: constructor_def loadEnrolledFace_def)
  have "verifier_inert initial_fields"
    by (simp add: verifier_inert_def initial_fields_def)
  then have inert: "verifier_inert (run initial_fields ops)"
    by (rule verifier_inert_run)
  then have "processVideo_recognition detection t (run initial_fields ops) = run initial_fields ops"
    by (simp add: processVideo_recognition_def verifier_inert_def)
  then show ?thesis
    using c inert by (simp add: verifier_inert_def initial_fields_def)
qed

theorem malformed_enrolled_json_witness:
  "''[[0.1, 0.2'' \<noteq> []
   \<and> constructor (\<lambda>_. None :: unit option) (\<lambda>_. None) (Some ''[[0.1, 0.2'') 0 = initial_fields
   \<and> \<not> faceRecognitionStarted
        (run (constructor (\<lambda>_. None :: unit option) (\<lambda>_. None) (Some ''[[0.1, 0.2'') 0)
           [StartMonitoring 1000, FaceDetectionResults 1 1100, Recognition (Detection [0, 0]) 2500])
   \<and> processVideo_recognition (Detection [0, 0]) 12500
        (run (constructor (\<lambda>_. None :: unit option) (\<lambda>_. None) (Some ''[[0.1, 0.2'') 0)
           [StartMonitoring 1000, FaceDetectionResults 1 1100, Recognition (Detection [0, 0]) 2500])
      = run (constructor (\<lambda>_. None :: unit option) (\<lambda>_. None) (Some ''[[0.1, 0.2'') 0)
           [StartMonitoring 1000, FaceDetectionResults 1 1100, Recognition (Detection [0, 0]) 2500]"
proof -
  have h1: "''[[0.1, 0.2'' \<noteq> []" by simp
  have h2: "(\<lambda>_. None :: unit option) ''[[0.1, 0.2'' = None" by simp
  show ?thesis
    using h1 malformed_enrolled_json [OF h1 h2, of "\<lambda>_. None" 0
      "[StartMonitoring 1000, FaceDetectionResults 1 1100, Recognition (Detection [0, 0]) 2500]"
      "Detection [0, 0]" 12500]
    by blast
qed

text \<open>
  The claim as it stands fails: with a persisted string that does not parse, the constructed
  object holds no event at all, whereas a missing key does log an error event.
\<close>

theorem malformed_json_no_event_counterexample:
  "sessionEvents (constructor (\<lambda>_. None :: unit option) (\<lambda>_. None) (Some ''[[0.1, 0.2'') 0) = []
   \<and> sessionLogs (constructor (\<lambda>_. None :: unit option) (\<lambda>_. None) (Some ''[[0.1, 0.2'') 0) = []
   \<and> sessionEvents (constructor (\<lambda>_. None :: unit option) (\<lambda>_. None) None 0) =
       [\<lparr>ev_timestamp = 0, ev_message = ''No enrolled face found. Please enroll first.'',
         ev_type = ''error''\<rparr>]"
  by (simp add: constructor_def loadEnrolledFace_def initial_fields_def logEvent_eq)

section \<open>Identity verification\<close>

lemma euclideanDistance_eq:
  "euclideanDistance r d = (if length r \<noteq> length d then None else Some (euclid r d))"
  by (simp add: euclideanDistance_def euclid_def)

lemma Min_insert_min:
  "finite A \<Longrightarrow> Min (insert (min b e) A) = Min (insert (b::real) (insert e A))"
  by (cases "A = {}") (simp_all add: min.assoc)

lemma bestDistanceLoop_Finite:
  "\<forall>r\<in>set refs. length r = length d \<Longrightarrow>
   bestDistanceLoop refs d (Finite b) = Some (Finite (Min (insert b ((\<lambda>r. euclid r d) ` set refs))))"
proof (induction refs arbitrary: b)
  case Nil
  then show ?case by simp
next
  case (Cons r rs)
  then show ?case
    by (simp add: euclideanDistance_eq min_distance_def Min_insert_min)
qed

lemma bestDistanceLoop_min:
  assumes "refs \<noteq> []" and "\<forall>r\<in>set refs. length r = length d"
  shows "bestDistanceLoop refs d Infinity = Some (Finite (min_enrolled_distance refs d))"
proof (cases refs)
  case Nil
  then show ?thesis using assms by simp
next
  case (Cons r rs)
  then show ?thesis
    using assms bestDistanceLoop_Finite [of rs d "euclid r d"]
    by (simp add: euclideanDistance_eq min_distance_def min_enrolled_distance_def)
qed

lemma bestDistanceLoop_throws:
  "\<exists>r\<in>set refs. length r \<noteq> length d \<Longrightarrow> bestDistanceLoop refs d best = None"
  by (induction refs arbitrary: best) (auto simp add: euclideanDistance_eq)

lemma identity_ok_performFaceRecognition:
  "identity_ok s \<Longrightarrow> identity_ok (performFaceRecognition detection now s)"
  by (auto simp add: identity_ok_def performFaceRecognition_def resetFaceRecognitionCounters_def
      Let_def logEvent_eq addToSessionLog_def STABILIZATION_THRESHOLD_def
      split: detection_result.splits option.splits)

lemma identity_ok_step: "identity_ok s \<Longrightarrow> identity_ok (step s op)"
proof (cases op)
  case (FaceMeshResults ls now)
  assume "identity_ok s"
  then show ?thesis
    by (simp add: FaceMeshResults identity_ok_def onFaceMeshResults_identity_fields)
next
  case (Recognition detection now)
  assume ok: "identity_ok s"
  then have "identity_ok (s\<lparr>lastFaceRecogTime := now, faceRecognitionStarted := True\<rparr>)"
    by (simp add: identity_ok_def)
  then show ?thesis
    using ok identity_ok_performFaceRecognition
    by (simp add: Recognition processVideo_recognition_def Let_def split: option.splits)
qed (simp_all add: identity_ok_def startMonitoring_def startMonitoring_failed_def
      stopMonitoring_def onFaceDetectionResults_def resetFaceRecognitionCounters_def
      toBlobCallback_def Let_def logEvent_eq addToSessionLog_def STABILIZATION_THRESHOLD_def
      split: list.splits)

lemma identity_ok_run: "identity_ok s \<Longrightarrow> identity_ok (run s ops)"
  unfolding run_def by (induction ops arbitrary: s) (simp_all add: identity_ok_step)

lemma identity_ok_constructor: "identity_ok (constructor jp conv stored now)"
  by (simp add: constructor_def loadEnrolledFace_def initial_fields_def identity_ok_def
      logEvent_eq STABILIZATION_THRESHOLD_def split: option.splits)

lemma performFaceRecognition_classified:
  assumes "lastFaceCount s = 1" and "enrolledDescriptors s = Some refs" and "refs \<noteq> []"
    and "\<forall>r\<in>set refs. length r = length d"
  shows "performFaceRecognition (Detection d) now s =
     (let bestDistance = Finite (min_enrolled_distance refs d) in
      if min_enrolled_distance refs d > FACE_RECOGNITION_THRESHOLD then
        (let s1 = s\<lparr>unauthorizedCounter := unauthorizedCounter s + 1, authorizedCounter := 0\<rparr>
         in if unauthorizedCounter s1 \<ge> STABILIZATION_THRESHOLD
               \<and> lastPersonState s1 \<noteq> PersonUnauthorized
            then addToSessionLog
                   (Face_recognition PersonUnauthorized bestDistance FACE_RECOGNITION_THRESHOLD) now
                   ((logEvent (''Wrong person detected (distance: '' @ toFixed3 bestDistance @ '')'')
                       ''violation'' now s1)\<lparr>lastPersonState := PersonUnauthorized\<rparr>)
            else s1)
      else
        (let s1 = s\<lparr>authorizedCounter := authorizedCounter s + 1, unauthorizedCounter := 0\<rparr>
         in if authorizedCounter s1 \<ge> STABILIZATION_THRESHOLD
               \<and> lastPersonState s1 \<noteq> PersonAuthorized
            then addToSessionLog
                   (Face_recognition PersonAuthorized bestDistance FACE_RECOGNITION_THRESHOLD) now
                   ((logEvent (''Authorized person verified (distance: '' @ toFixed3 bestDistance
                        @ '')'') ''info'' now s1)\<lparr>lastPersonState := PersonAuthorized\<rparr>)
            else s1))"
  using assms bestDistanceLoop_min [of refs d]
  by (simp add: performFaceRecognition_def exceeds_def Let_def)

lemma classified_unauthorized:
  assumes h: "lastFaceCount s = 1" "enrolledDescriptors s = Some refs" "refs \<noteq> []"
          "\<forall>r\<in>set refs. length r = length d"
    and ok: "identity_ok s"
    and far: "min_enrolled_distance refs d > FACE_RECOGNITION_THRESHOLD"
    and s'_def: "s' = performFaceRecognition (Detection d) now s"
  shows "unauthorizedCounter s' = unauthorizedCounter s + 1 \<and> authorizedCounter s' = 0
     \<and> (if unauthorizedCounter s' = 3 \<and> lastPersonState s \<noteq> PersonUnauthorized
        then lastPersonState s' = PersonUnauthorized
           \<and> sessionEvents s' = sessionEvents s @
               [\<lparr>ev_timestamp = now,
                 ev_message = ''Wrong person detected (distance: '' @
                   toFixed3 (Finite (min_enrolled_distance refs d)) @ '')'',
                 ev_type = ''violation''\<rparr>]
        else lastPersonState s' = lastPersonState s \<and> sessionEvents s' = sessionEvents s)"
proof (cases "STABILIZATION_THRESHOLD \<le> unauthorizedCounter s + 1
                \<and> lastPersonState s \<noteq> PersonUnauthorized")
  case True
  then have "\<not> STABILIZATION_THRESHOLD \<le> unauthorizedCounter s"
    using ok by (auto simp add: identity_ok_def)
  then have three: "unauthorizedCounter s + 1 = 3"
    using True by (simp add: STABILIZATION_THRESHOLD_def)
  have "s' = addToSessionLog
       (Face_recognition PersonUnauthorized (Finite (min_enrolled_distance refs d))
          FACE_RECOGNITION_THRESHOLD) now
       ((logEvent (''Wrong person detected (distance: '' @
            toFixed3 (Finite (min_enrolled_distance refs d)) @ '')'') ''violation'' now
           (s\<lparr>unauthorizedCounter := unauthorizedCounter s + 1, authorizedCounter := 0\<rparr>))
        \<lparr>lastPersonState := PersonUnauthorized\<rparr>)"
    unfolding s'_def using True far
    by (simp add: performFaceRecognition_classified [OF h] Let_def)
  then show ?thesis
    using three True by (simp add: logEvent_eq addToSessionLog_def)
next
  case False
  have eq: "s' = s\<lparr>unauthorizedCounter := unauthorizedCounter s + 1, authorizedCounter := 0\<rparr>"
    unfolding s'_def using False far
    by (auto simp add: performFaceRecognition_classified [OF h] Let_def)
  have "\<not> (unauthorizedCounter s + 1 = 3 \<and> lastPersonState s \<noteq> PersonUnauthorized)"
    using False by (auto simp add: STABILIZATION_THRESHOLD_def)
  then show ?thesis
    using eq by auto
qed

lemma classified_authorized:
  assumes h: "lastFaceCount s = 1" "enrolledDescriptors s = Some refs" "refs \<noteq> []"
          "\<forall>r\<in>set refs. length r = length d"
    and ok: "identity_ok s"
    and near: "\<not> min_enrolled_distance refs d > FACE_RECOGNITION_THRESHOLD"
    and s'_def: "s' = performFaceRecognition (Detection d) now s"
  shows "authorizedCounter s' = authorizedCounter s + 1 \<and> unauthorizedCounter s' = 0
     \<and> (if authorizedCounter s' = 3 \<and> lastPersonState s \<noteq> PersonAuthorized
        then lastPersonState s' = PersonAuthorized
           \<and> sessionEvents s' = sessionEvents s @
               [\<lparr>ev_timestamp = now,
                 ev_message = ''Authorized person verified (distance: '' @
                   toFixed3 (Finite (min_enrolled_distance refs d)) @ '')'',
                 ev_type = ''info''\<rparr>]
        else lastPersonState s' = lastPersonState s \<and> sessionEvents s' = sessionEvents s)"
proof (cases "STABILIZATION_THRESHOLD \<le> authorizedCounter s + 1
                \<and> lastPersonState s \<noteq> PersonAuthorized")
  case True
  then have "\<not> STABILIZATION_THRESHOLD \<le> authorizedCounter s"
    using ok by (auto simp add: identity_ok_def)
  then have three: "authorizedCounter s + 1 = 3"
    using True by (simp add: STABILIZATION_THRESHOLD_def)
  have "s' = addToSessionLog
       (Face_recognition PersonAuthorized (Finite (min_enrolled_distance refs d))
          FACE_RECOGNITION_THRESHOLD) now
       ((logEvent (''Authorized person verified (distance: '' @
            toFixed3 (Finite (min_enrolled_distance refs d)) @ '')'') ''info'' now
           (s\<lparr>authorizedCounter := authorizedCounter s + 1, unauthorizedCounter := 0\<rparr>))
        \<lparr>lastPersonState := PersonAuthorized\<rparr>)"
    unfolding s'_def using True near
    by (simp add: performFaceRecognition_classified [OF h] Let_def)
  then show ?thesis
    using three True by (simp add: logEvent_eq addToSessionLog_def)
next
  case False
  have eq: "s' = s\<lparr>authorizedCounter := authorizedCounter s + 1, unauthorizedCounter := 0\<rparr>"
    unfolding s'_def using False near
    by (auto simp add: performFaceRecognition_classified [OF h] Let_def)
  have "\<not> (authorizedCounter s + 1 = 3 \<and> lastPersonState s \<noteq> PersonAuthorized)"
    using False by (auto simp add: STABILIZATION_THRESHOLD_def)
  then show ?thesis
    using eq by auto
qed

text \<open>
  C5. On every object, after any sequence of operations since its construction:
  a recognition cycle with a face count other than 1, with a failed detection or with no
  detection resets both identity counters to 0 and emits nothing, and so does a cycle in
  which a comparison throws; the presence handler resets both counters whenever the face
  count it receives is 0 or greater than 1. With a face count of exactly 1 and a descriptor
  of the enrolled length, the cycle counts as unauthorized exactly when the least Euclidean
  distance to the enrolled descriptors exceeds 0.50 (the unauthorized counter goes up by 1,
  the authorized counter goes to 0) and as authorized otherwise (symmetrically); the
  confirmed person state changes, and the event is emitted, exactly on the cycle at which
  the matching counter reaches 3 while the confirmed state differs.
\<close>

theorem identity_verification:
  assumes reach: "s = run (constructor json_parse to_descriptors stored t0) ops"
  shows
    "(lastFaceCount s \<noteq> 1 \<or> detection = Detection_throws \<or> detection = No_detection
        \<longrightarrow> performFaceRecognition detection now s = resetFaceRecognitionCounters s)
     \<and> (lastFaceCount s = 1 \<and> enrolledDescriptors s = Some refs
          \<and> (\<exists>r\<in>set refs. length r \<noteq> length d)
        \<longrightarrow> performFaceRecognition (Detection d) now s = resetFaceRecognitionCounters s)
     \<and> unauthorizedCounter (resetFaceRecognitionCounters s) = 0
     \<and> authorizedCounter (resetFaceRecognitionCounters s) = 0
     \<and> sessionEvents (resetFaceRecognitionCounters s) = sessionEvents s
     \<and> lastPersonState (resetFaceRecognitionCounters s) = lastPersonState s
     \<and> (isMonitoring s \<and> n \<noteq> 1
        \<longrightarrow> unauthorizedCounter (onFaceDetectionResults n now s) = 0
          \<and> authorizedCounter (onFaceDetectionResults n now s) = 0)
     \<and> (lastFaceCount s = 1 \<and> enrolledDescriptors s = Some refs \<and> refs \<noteq> []
          \<and> (\<forall>r\<in>set refs. length r = length d)
        \<longrightarrow> (let m = min_enrolled_distance refs d;
                 s' = performFaceRecognition (Detection d) now s
             in if m > 0.50 then
                  unauthorizedCounter s' = unauthorizedCounter s + 1 \<and> authorizedCounter s' = 0
                  \<and> (if unauthorizedCounter s' = 3 \<and> lastPersonState s \<noteq> PersonUnauthorized
                     then lastPersonState s' = PersonUnauthorized
                        \<and> sessionEvents s' = sessionEvents s @
                            [\<lparr>ev_timestamp = now,
                              ev_message = ''Wrong person detected (distance: '' @
                                toFixed3 (Finite m) @ '')'',
                              ev_type = ''violation''\<rparr>]
                     else lastPersonState s' = lastPersonState s
                        \<and> sessionEvents s' = sessionEvents s)
                else
                  authorizedCounter s' = authorizedCounter s + 1 \<and> unauthorizedCounter s' = 0
                  \<and> (if authorizedCounter s' = 3 \<and> lastPersonState s \<noteq> PersonAuthorized
                     then lastPersonState s' = PersonAuthorized
                        \<and> sessionEvents s' = sessionEvents s @
                            [\<lparr>ev_timestamp = now,
                              ev_message = ''Authorized person verified (distance: '' @
                                toFixed3 (Finite m) @ '')'',
                              ev_type = ''info''\<rparr>]
                     else lastPersonState s' = lastPersonState s
                        \<and> sessionEvents s' = sessionEvents s)))"
proof -
  have ok: "identity_ok s"
    using reach identity_ok_run [OF identity_ok_constructor] by simp
  have gap: "lastFaceCount s \<noteq> 1 \<or> detection = Detection_throws \<or> detection = No_detection
        \<longrightarrow> performFaceRecognition detection now s = resetFaceRecognitionCounters s"
    by (auto simp add: performFaceRecognition_def)
  have throws: "lastFaceCount s = 1 \<and> enrolledDescriptors s = Some refs
          \<and> (\<exists>r\<in>set refs. length r \<noteq> length d)
        \<longrightarrow> performFaceRecognition (Detection d) now s = resetFaceRecognitionCounters s"
    using bestDistanceLoop_throws [of refs d Infinity]
    by (auto simp add: performFaceRecognition_def)
  have reset: "unauthorizedCounter (resetFaceRecognitionCounters s) = 0"
    "authorizedCounter (resetFaceRecognitionCounters s) = 0"
    "sessionEvents (resetFaceRecognitionCounters s) = sessionEvents s"
    "lastPersonState (resetFaceRecognitionCounters s) = lastPersonState s"
    by (simp_all add: resetFaceRecognitionCounters_def)
  have presence: "isMonitoring s \<and> n \<noteq> 1
        \<longrightarrow> unauthorizedCounter (onFaceDetectionResults n now s) = 0
          \<and> authorizedCounter (onFaceDetectionResults n now s) = 0"
    by (simp add: onFaceDetectionResults_def resetFaceRecognitionCounters_def Let_def
        logEvent_eq addToSessionLog_def)
  have classified: "lastFaceCount s = 1 \<and> enrolledDescriptors s = Some refs \<and> refs \<noteq> []
          \<and> (\<forall>r\<in>set refs. length r = length d)
        \<longrightarrow> (let m = min_enrolled_distance refs d;
                 s' = performFaceRecognition (Detection d) now s
             in if m > 0.50 then
                  unauthorizedCounter s' = unauthorizedCounter s + 1 \<and> authorizedCounter s' = 0
                  \<and> (if unauthorizedCounter s' = 3 \<and> lastPersonState s \<noteq> PersonUnauthorized
                     then lastPersonState s' = PersonUnauthorized
                        \<and> sessionEvents s' = sessionEvents s @
                            [\<lparr>ev_timestamp = now,
                              ev_message = ''Wrong person detected (distance: '' @
                                toFixed3 (Finite m) @ '')'',
                              ev_type = ''violation''\<rparr>]
                     else lastPersonState s' = lastPersonState s
                        \<and> sessionEvents s' = sessionEvents s)
                else
                  authorizedCounter s' = authorizedCounter s + 1 \<and> unauthorizedCounter s' = 0
                  \<and> (if authorizedCounter s' = 3 \<and> lastPersonState s \<noteq> PersonAuthorized
                     then lastPersonState s' = PersonAuthorized
                        \<and> sessionEvents s' = sessionEvents s @
                            [\<lparr>ev_timestamp = now,
                              ev_message = ''Authorized person verified (distance: '' @
                                toFixed3 (Finite m) @ '')'',
                              ev_type = ''info''\<rparr>]
                     else lastPersonState s' = lastPersonState s
                        \<and> sessionEvents s' = sessionEvents s))"
  proof (intro impI, elim conjE)
    assume h: "lastFaceCount s = 1" "enrolledDescriptors s = Some refs" "refs \<noteq> []"
          "\<forall>r\<in>set refs. length r = length d"
    have th: "FACE_RECOGNITION_THRESHOLD = 0.50"
      by (simp add: FACE_RECOGNITION_THRESHOLD_def)
    show "(let m = min_enrolled_distance refs d;
                 s' = performFaceRecognition (Detection d) now s
             in if m > 0.50 then
                  unauthorizedCounter s' = unauthorizedCounter s + 1 \<and> authorizedCounter s' = 0
                  \<and> (if unauthorizedCounter s' = 3 \<and> lastPersonState s \<noteq> PersonUnauthorized
                     then lastPersonState s' = PersonUnauthorized
                        \<and> sessionEvents s' = sessionEvents s @
                            [\<lparr>ev_timestamp = now,
                              ev_message = ''Wrong person detected (distance: '' @
                                toFixed3 (Finite m) @ '')'',
                              ev_type = ''violation''\<rparr>]
                     else lastPersonState s' = lastPersonState s
                        \<and> sessionEvents s' = sessionEvents s)
                else
                  authorizedCounter s' = authorizedCounter s + 1 \<and> unauthorizedCounter s' = 0
                  \<and> (if authorizedCounter s' = 3 \<and> lastPersonState s \<noteq> PersonAuthorized
                     then lastPersonState s' = PersonAuthorized
                        \<and> sessionEvents s' = sessionEvents s @
                            [\<lparr>ev_timestamp = now,
                              ev_message = ''Authorized person verified (distance: '' @
                                toFixed3 (Finite m) @ '')'',
                              ev_type = ''info''\<rparr>]
                     else lastPersonState s' = lastPersonState s
                        \<and> sessionEvents s' = sessionEvents s))"
    proof (cases "min_enrolled_distance refs d > 0.50")
      case True
      then have far: "min_enrolled_distance refs d > FACE_RECOGNITION_THRESHOLD"
        by (simp add: th)
      show ?thesis
        unfolding Let_def if_P [OF True]
        by (rule classified_unauthorized [OF h ok far refl])
    next
      case False
      then have near: "\<not> min_enrolled_distance refs d > FACE_RECOGNITION_THRESHOLD"
        by (simp add: th)
      show ?thesis
        unfolding Let_def if_not_P [OF False]
        by (rule classified_authorized [OF h ok near refl])
    qed
  qed
  show ?thesis
    by (intro conjI) (rule gap throws reset presence classified)+
qed

lemma min_enrolled_distance_single: "min_enrolled_distance [[0, 0]] [1, 0] = 1"
  by (simp add: min_enrolled_distance_def euclid_def)

lemma enrolled_session_fields:
  "lastFaceCount enrolled_session = 1"
  "enrolledDescriptors enrolled_session = Some [[0, 0]]"
  "unauthorizedCounter enrolled_session = 2"
  "authorizedCounter enrolled_session = 0"
  "lastPersonState enrolled_session = PersonUnknown"
  "map ev_message (sessionEvents enrolled_session) =
     [''Monitoring session started - Calibrating...'', ''Single face detected - OK'']"
  by (simp_all add: enrolled_session_def run_def constructor_def loadEnrolledFace_def
      initial_fields_def startMonitoring_def onFaceDetectionResults_def
      processVideo_recognition_def performFaceRecognition_def euclideanDistance_def
      min_distance_def exceeds_def resetFaceRecognitionCounters_def Let_def logEvent_eq
      addToSessionLog_def CONFIG_defs)

theorem identity_verification_witness:
  "unauthorizedCounter enrolled_session = 2
   \<and> lastPersonState enrolled_session = PersonUnknown
   \<and> unauthorizedCounter (performFaceRecognition (Detection [1, 0]) 22500 enrolled_session) = 3
   \<and> authorizedCounter (performFaceRecognition (Detection [1, 0]) 22500 enrolled_session) = 0
   \<and> lastPersonState (performFaceRecognition (Detection [1, 0]) 22500 enrolled_session)
       = PersonUnauthorized
   \<and> map ev_type (sessionEvents
         (performFaceRecognition (Detection [1, 0]) 22500 enrolled_session))
       = [''info'', ''info'', ''violation'']
   \<and> performFaceRecognition No_detection 22500 enrolled_session
       = resetFaceRecognitionCounters enrolled_session"
proof -
  have ev: "map ev_type (sessionEvents enrolled_session) = [''info'', ''info'']"
    by (simp add: enrolled_session_def run_def constructor_def loadEnrolledFace_def
      initial_fields_def startMonitoring_def onFaceDetectionResults_def
      processVideo_recognition_def performFaceRecognition_def euclideanDistance_def
      min_distance_def exceeds_def resetFaceRecognitionCounters_def Let_def logEvent_eq
      addToSessionLog_def CONFIG_defs)
  show ?thesis
    using identity_verification [OF enrolled_session_def,
        of No_detection 22500 "[[0, 0]]" "[1, 0]" 0]
      enrolled_session_fields min_enrolled_distance_single ev
    by (simp add: Let_def)
qed

section \<open>Calibration\<close>

lemma ema_closed_Nil [simp]: "ema_closed \<alpha> b [] = b"
  by (simp add: ema_closed_def)

lemma ema_closed_snoc:
  "ema_closed \<alpha> b (xs @ [v]) = ema_closed \<alpha> b xs * (1 - \<alpha>) + v * \<alpha>"
proof -
  have "(\<Sum>i<length xs. \<alpha> * (1 - \<alpha>) ^ (length xs - i) * (xs @ [v]) ! i)
      = (\<Sum>i<length xs. (1 - \<alpha>) * (\<alpha> * (1 - \<alpha>) ^ (length xs - 1 - i) * xs ! i))"
  proof (rule sum.cong)
    fix i assume "i \<in> {..<length xs}"
    then have i: "i < length xs" by simp
    then have "length xs - i = Suc (length xs - 1 - i)" by simp
    then show "\<alpha> * (1 - \<alpha>) ^ (length xs - i) * (xs @ [v]) ! i
        = (1 - \<alpha>) * (\<alpha> * (1 - \<alpha>) ^ (length xs - 1 - i) * xs ! i)"
      using i by (simp add: nth_append)
  qed simp
  then have "(\<Sum>i<length xs. \<alpha> * (1 - \<alpha>) ^ (length xs - i) * (xs @ [v]) ! i)
      = (1 - \<alpha>) * (\<Sum>i<length xs. \<alpha> * (1 - \<alpha>) ^ (length xs - 1 - i) * xs ! i)"
    by (simp add: sum_distrib_left)
  then show ?thesis
    by (simp add: ema_closed_def algebra_simps)
qed

lemma ema_step_closed:
  "ema_step (ema_closed CALIBRATION_EMA_ALPHA b xs) v = ema_closed CALIBRATION_EMA_ALPHA b (xs @ [v])"
  by (simp add: ema_step_def ema_closed_snoc)

lemma landmark_frames_snoc:
  "landmark_frames (ops @ [op]) =
     landmark_frames ops @
       (case op of FaceMeshResults (l # rest) now \<Rightarrow> [l] | _ \<Rightarrow> [])"
  by (induction ops rule: landmark_frames.induct)
    (simp_all split: operation.splits list.splits)

lemma calibration_completes_append [simp]:
  "calibration_completes (xs @ ys) = calibration_completes xs @ calibration_completes ys"
  by (simp add: calibration_completes_def)

lemma calibration_completes_simps [simp]:
  "calibration_completes [] = []"
  "calibration_completes (e # es) =
     (if is_calibration_complete (log_entry e) then log_entry e # calibration_completes es
      else calibration_completes es)"
  by (simp_all add: calibration_completes_def)

lemma calibration_untouched_onFaceDetectionResults:
  "calibration_untouched s (onFaceDetectionResults n now s)"
  by (simp add: calibration_untouched_def onFaceDetectionResults_def
      resetFaceRecognitionCounters_def Let_def logEvent_eq addToSessionLog_def)

lemma calibration_untouched_performFaceRecognition:
  "calibration_untouched s (performFaceRecognition d now s)"
  by (simp add: calibration_untouched_def performFaceRecognition_def
      resetFaceRecognitionCounters_def Let_def logEvent_eq addToSessionLog_def
      split: detection_result.splits option.splits)

lemma calibration_untouched_processVideo_recognition:
  "calibration_untouched s (processVideo_recognition d now s)"
  using calibration_untouched_performFaceRecognition
    [of "s\<lparr>lastFaceRecogTime := now, faceRecognitionStarted := True\<rparr>" d now]
  by (simp add: calibration_untouched_def processVideo_recognition_def Let_def
      split: option.splits)

lemma calibration_untouched_toBlobCallback:
  "calibration_untouched s (toBlobCallback b now s)"
  by (simp add: calibration_untouched_def toBlobCallback_def Let_def addToSessionLog_def
      split: list.splits)

lemma calibration_untouched_stabilizeAttention:
  "calibration_untouched s (stabilizeAttention a g now s)"
  by (simp add: calibration_untouched_def stabilizeAttention_def Let_def logEvent_eq
      addToSessionLog_def)

lemma calibration_inv_untouched:
  "calibration_inv s0 fr s \<Longrightarrow> calibration_untouched s s' \<Longrightarrow> calibration_inv s0 fr s'"
  by (simp add: calibration_inv_def calibration_untouched_def)

lemma calibration_inv_start: "calibration_inv s [] (startMonitoring t s)"
  by (simp add: calibration_inv_def startMonitoring_def Let_def logEvent_eq addToSessionLog_def
      yaw_samples_def pitch_samples_def gaze_samples_def map_filter_simps)

lemma samples_snoc:
  "rawHeadAngles l = Some angles \<Longrightarrow> yaw_samples (fr @ [l]) = yaw_samples fr @ [yaw angles]"
  "rawHeadAngles l = Some angles \<Longrightarrow> pitch_samples (fr @ [l]) = pitch_samples fr @ [pitch angles]"
  "gaze_samples (fr @ [l]) = gaze_samples fr @ (case avgGaze l of None \<Rightarrow> [] | Some g \<Rightarrow> [g])"
  by (simp_all add: yaw_samples_def pitch_samples_def gaze_samples_def map_filter_def
      split: option.splits)

lemma calibration_inv_calibrating:
  assumes inv: "calibration_inv s0 fr s" and lt: "calibrationFrames s < CALIBRATION_MAX_FRAMES"
    and ra: "rawHeadAngles l = Some angles"
  shows "calibration_inv s0 (fr @ [l])
     (s\<lparr>baselineGaze := (case avgGaze l of None \<Rightarrow> baselineGaze s
                            | Some g \<Rightarrow> ema_step (baselineGaze s) g),
         baselineYaw := ema_step (baselineYaw s) (yaw angles),
         baselinePitch := ema_step (baselinePitch s) (pitch angles),
         calibrationFrames := calibrationFrames s + 1\<rparr>)"
proof -
  have n: "length fr < 45" "calibrationFrames s = length fr"
    using inv lt by (auto simp add: calibration_inv_def CALIBRATION_MAX_FRAMES_def)
  then have tk: "take 45 (fr @ [l]) = take 45 fr @ [l]" by simp
  show ?thesis
    using inv n
    by (simp add: calibration_inv_def tk samples_snoc(1,2) [OF ra] samples_snoc(3)
        ema_step_closed split: option.splits)
qed

lemma calibration_inv_analysis:
  assumes inv: "calibration_inv s0 fr s" and ge: "\<not> calibrationFrames s < CALIBRATION_MAX_FRAMES"
  shows "calibration_inv s0 (fr @ [l])
     (stabilizeAttention a g now
        ((calibration_transition now s)\<lparr>yawHistory := y, pitchHistory := p, gazeHistory := h\<rparr>))"
proof -
  have n: "45 \<le> length fr"
    using inv ge by (auto simp add: calibration_inv_def CALIBRATION_MAX_FRAMES_def)
  then have tk: "take 45 (fr @ [l]) = take 45 fr" by simp
  let ?s1 = "(calibration_transition now s)\<lparr>yawHistory := y, pitchHistory := p, gazeHistory := h\<rparr>"
  have "calibration_inv s0 (fr @ [l]) ?s1"
    using inv n
    by (auto simp add: calibration_inv_def tk calibration_transition_def Let_def logEvent_eq
        addToSessionLog_def CALIBRATION_MAX_FRAMES_def)
  then show ?thesis
    using calibration_untouched_stabilizeAttention calibration_inv_untouched by blast
qed

lemma calibration_inv_step:
  assumes inv: "calibration_inv s0 fr s" and op: "session_op op"
  shows "calibration_inv s0
     (fr @ (case op of FaceMeshResults (l # rest) now \<Rightarrow> [l] | _ \<Rightarrow> [])) (step s op)"
proof (cases op)
  case (FaceDetectionResults n now)
  then show ?thesis
    using inv calibration_untouched_onFaceDetectionResults calibration_inv_untouched
    by fastforce
next
  case (Recognition d now)
  then show ?thesis
    using inv calibration_untouched_processVideo_recognition calibration_inv_untouched
    by fastforce
next
  case (ToBlobCallback b now)
  then show ?thesis
    using inv calibration_untouched_toBlobCallback calibration_inv_untouched
    by fastforce
next
  case (FaceMeshResults ls now)
  have mon: "isMonitoring s" using inv by (simp add: calibration_inv_def)
  show ?thesis
  proof (cases ls now s rule: onFaceMeshResults_cases)
    case idle
    then show ?thesis using inv mon FaceMeshResults by simp
  next
    case (calibration_throws l rest)
    then show ?thesis using op FaceMeshResults by simp
  next
    case (calibration l rest angles)
    then show ?thesis
      using calibration_inv_calibrating [OF inv calibration(3,4)] FaceMeshResults by simp
  next
    case (analysis_throws l rest)
    then show ?thesis using op FaceMeshResults by simp
  next
    case (analysis l rest a g y p h)
    then show ?thesis
      using calibration_inv_analysis [OF inv analysis(3)] FaceMeshResults by simp
  qed
qed (use op in simp_all)

lemma calibration_inv_run:
  "list_all session_op ops \<Longrightarrow>
   calibration_inv s (landmark_frames ops) (run (startMonitoring t s) ops)"
proof (induction ops rule: rev_induct)
  case Nil
  then show ?case by (simp add: run_def calibration_inv_start)
next
  case (snoc op ops)
  then have "calibration_inv s (landmark_frames ops) (run (startMonitoring t s) ops)"
    and "session_op op" by simp_all
  then show ?case
    using calibration_inv_step by (simp add: run_def landmark_frames_snoc)
qed

lemma run_append: "run s (xs @ ys) = run (run s xs) ys"
  by (simp add: run_def)

lemma run_Nil: "run s [] = s"
  by (simp add: run_def)

lemma run_Cons: "run s (op # ops) = run (step s op) ops"
  by (simp add: run_def)

lemma run_snoc: "run s (xs @ [op]) = step (run s xs) op"
  by (simp add: run_def)

lemma session_frames_have_angles:
  "list_all session_op ops \<Longrightarrow> \<forall>l\<in>set (landmark_frames ops). rawHeadAngles l \<noteq> None"
  by (induction ops rule: landmark_frames.induct) simp_all

lemma length_head_samples:
  assumes "\<forall>l\<in>set fr. rawHeadAngles l \<noteq> None"
  shows "length (yaw_samples fr) = length fr" and "length (pitch_samples fr) = length fr"
  using assms
  by (induction fr) (auto simp add: yaw_samples_def pitch_samples_def map_filter_simps)

lemma still_face_angles: "rawHeadAngles still_face = Some \<lparr>yaw = 0, pitch = 0\<rparr>"
  by (simp add: rawHeadAngles_def landmark_def still_face_def calculateHeadAngles_def
      calculateEyeCenter_def)

lemma turned_face_angles: "rawHeadAngles turned_face = Some \<lparr>yaw = 0.4, pitch = 0\<rparr>"
  by (simp add: rawHeadAngles_def landmark_def turned_face_def still_face_def
      calculateHeadAngles_def calculateEyeCenter_def)

lemma face_gaze: "avgGaze still_face = None" "avgGaze turned_face = None"
  by (simp_all add: avgGaze_def landmark_def turned_face_def still_face_def calculateGaze_def
      GAZE_MIN_EYE_WIDTH_def)

lemma mesh_frames_Suc:
  "mesh_frames l t0 (Suc n) = mesh_frames l t0 n @ [FaceMeshResults [l] (t0 + 33 * int n)]"
  by (simp add: mesh_frames_def)

lemma mesh_frames_session:
  "rawHeadAngles l \<noteq> None \<Longrightarrow> list_all session_op (mesh_frames l t0 n)"
  by (induction n) (simp_all add: mesh_frames_Suc, simp add: mesh_frames_def)

lemma mesh_frames_landmarks: "landmark_frames (mesh_frames l t0 n) = replicate n l"
  by (induction n)
    (simp_all add: mesh_frames_Suc landmark_frames_snoc replicate_append_same, 
     simp add: mesh_frames_def)

lemma ema_closed_two:
  "ema_closed a b [u, v] = (b * (1 - a) + u * a) * (1 - a) + v * a"
  using ema_closed_snoc [of a b "[u]" v] ema_closed_snoc [of a b "[]" u] by simp

text \<open>
  C2. In a session (any object, started at any time), after any sequence of presence, mesh
  and recognition callbacks: while fewer than 45 landmark frames have been processed, the
  next landmark frame changes nothing of the object but the baseline and the frame counter
  (no history, no counter, no confirmed state, no event, no log entry); the frame that
  follows the 45th appends the one \<^verbatim>\<open>calibration_complete\<close> entry of the session,
  which carries the baseline reached after the 45th frame; before it the log has no such
  entry, and whatever follows, the log keeps exactly that one.
\<close>

theorem calibration_window:
  assumes ops: "list_all session_op ops"
  shows
    "(let s' = run (startMonitoring t s) ops;
          s'' = run (startMonitoring t s) (ops @ [FaceMeshResults (l # rest) now])
      in (length (landmark_frames ops) < 45 \<and> rawHeadAngles l = Some angles \<longrightarrow>
            s'' = s'\<lparr>baselineGaze := (case avgGaze l of None \<Rightarrow> baselineGaze s'
                                       | Some g \<Rightarrow> ema_step (baselineGaze s') g),
                     baselineYaw := ema_step (baselineYaw s') (yaw angles),
                     baselinePitch := ema_step (baselinePitch s') (pitch angles),
                     calibrationFrames := length (landmark_frames ops) + 1\<rparr>)
         \<and> (length (landmark_frames ops) = 45 \<and> rawHeadAngles l = Some angles \<longrightarrow>
              calibration_completes (sessionLogs s') = []
              \<and> calibration_completes (sessionLogs s'') =
                  [Calibration_complete (baselineYaw s') (baselinePitch s') (baselineGaze s')])
         \<and> (length (landmark_frames ops) \<le> 45 \<longrightarrow> calibration_completes (sessionLogs s') = [])
         \<and> (length (landmark_frames ops) > 45 \<longrightarrow>
              calibration_completes (sessionLogs s') =
                [Calibration_complete (baselineYaw s') (baselinePitch s') (baselineGaze s')]))"
proof -
  let ?s' = "run (startMonitoring t s) ops"
  let ?op = "FaceMeshResults (l # rest) now"
  let ?s'' = "run (startMonitoring t s) (ops @ [?op])"
  have inv: "calibration_inv s (landmark_frames ops) ?s'"
    using ops by (rule calibration_inv_run)
  have mon: "isMonitoring ?s'" and cf: "calibrationFrames ?s' = min (length (landmark_frames ops)) 46"
    using inv by (simp_all add: calibration_inv_def)
  have first: "?s'' = ?s'\<lparr>baselineGaze := (case avgGaze l of None \<Rightarrow> baselineGaze ?s'
                                       | Some g \<Rightarrow> ema_step (baselineGaze ?s') g),
                     baselineYaw := ema_step (baselineYaw ?s') (yaw angles),
                     baselinePitch := ema_step (baselinePitch ?s') (pitch angles),
                     calibrationFrames := length (landmark_frames ops) + 1\<rparr>"
    if "length (landmark_frames ops) < 45" and ra: "rawHeadAngles l = Some angles"
  proof -
    have lt: "calibrationFrames ?s' < CALIBRATION_MAX_FRAMES"
      using that cf by (simp add: CALIBRATION_MAX_FRAMES_def)
    have "calibrationFrames ?s' = length (landmark_frames ops)"
      using that cf by simp
    then show ?thesis
      by (simp add: run_snoc onFaceMeshResults_calibrating [OF mon lt] calibrateBaseline_eq ra
          state_of_def)
  qed
  have later: "calibration_completes (sessionLogs ?s') =
       (if length (landmark_frames ops) \<le> 45 then []
        else [Calibration_complete (baselineYaw ?s') (baselinePitch ?s') (baselineGaze ?s')])"
    using inv by (simp add: calibration_inv_def)
  have at46: "calibration_completes (sessionLogs ?s'') =
       [Calibration_complete (baselineYaw ?s') (baselinePitch ?s') (baselineGaze ?s')]"
    if n: "length (landmark_frames ops) = 45" and ra: "rawHeadAngles l = Some angles"
  proof -
    have "list_all session_op (ops @ [?op])" using ops ra by simp
    then have inv2: "calibration_inv s (landmark_frames (ops @ [?op])) ?s''"
      by (rule calibration_inv_run)
    have len: "length (landmark_frames (ops @ [?op])) = 46"
      using n by (simp add: landmark_frames_snoc)
    have tk: "take 45 (landmark_frames (ops @ [?op])) = take 45 (landmark_frames ops)"
      using n by (simp add: landmark_frames_snoc)
    have "baselineYaw ?s'' = baselineYaw ?s'" "baselinePitch ?s'' = baselinePitch ?s'"
      "baselineGaze ?s'' = baselineGaze ?s'"
      using inv inv2 by (simp_all add: calibration_inv_def tk)
    then show ?thesis
      using inv2 len by (simp add: calibration_inv_def)
  qed
  show ?thesis
    unfolding Let_def using first later at46 by simp
qed

theorem calibration_window_witness:
  "run fresh_session [FaceMeshResults [turned_face] 1033] =
     fresh_session\<lparr>baselineGaze := baselineGaze fresh_session,
       baselineYaw := ema_step (baselineYaw fresh_session) 0.4,
       baselinePitch := ema_step (baselinePitch fresh_session) 0,
       calibrationFrames := 1\<rparr>
   \<and> calibration_completes (sessionLogs (run fresh_session (mesh_frames still_face 1033 45))) = []
   \<and> calibration_completes (sessionLogs (run fresh_session
         (mesh_frames still_face 1033 45 @ [FaceMeshResults [turned_face] 2518]))) =
       [Calibration_complete
          (baselineYaw (run fresh_session (mesh_frames still_face 1033 45)))
          (baselinePitch (run fresh_session (mesh_frames still_face 1033 45)))
          (baselineGaze (run fresh_session (mesh_frames still_face 1033 45)))]
   \<and> calibration_completes (sessionLogs (run fresh_session (mesh_frames still_face 1033 50))) =
       [Calibration_complete
          (baselineYaw (run fresh_session (mesh_frames still_face 1033 50)))
          (baselinePitch (run fresh_session (mesh_frames still_face 1033 50)))
          (baselineGaze (run fresh_session (mesh_frames still_face 1033 50)))]"
proof -
  have o0: "list_all session_op []" by simp
  have o: "list_all session_op (mesh_frames still_face 1033 n)" for n
    by (rule mesh_frames_session) (simp add: still_face_angles)
  have r0: "run s [] = s" for s by (simp add: run_def)
  show ?thesis
    unfolding fresh_session_def
    using calibration_window [OF o0, where t = 1000
        and s = "constructor (\<lambda>_. None :: unit option) (\<lambda>_. None) None 0"
        and l = turned_face and angles = "\<lparr>yaw = 0.4, pitch = 0\<rparr>" and rest = "[]"
        and now = 1033]
      calibration_window [OF o [of 45], where t = 1000
        and s = "constructor (\<lambda>_. None :: unit option) (\<lambda>_. None) None 0"
        and l = turned_face and angles = "\<lparr>yaw = 0.4, pitch = 0\<rparr>" and rest = "[]"
        and now = 2518]
      calibration_window [OF o [of 50], where t = 1000
        and s = "constructor (\<lambda>_. None :: unit option) (\<lambda>_. None) None 0"
        and l = turned_face and angles = "\<lparr>yaw = 0.4, pitch = 0\<rparr>" and rest = "[]"
        and now = 2518]
    by (simp add: Let_def r0 mesh_frames_landmarks turned_face_angles face_gaze)
qed

section \<open>The calibrated baseline\<close>

text \<open>The samples the code takes are the samples of the specification.\<close>

lemma rawHeadAngles_spec:
  "rawHeadAngles l = Some angles \<Longrightarrow>
     yaw angles = spec_raw_yaw l \<and> pitch angles = spec_raw_pitch l"
  by (auto simp add: rawHeadAngles_def landmark_def calculateHeadAngles_def
      calculateEyeCenter_def spec_raw_yaw_def spec_raw_pitch_def split: if_splits)

lemma avgGaze_spec: "avgGaze l = spec_raw_gaze l"
  by (simp add: avgGaze_def landmark_def calculateGaze_def spec_raw_gaze_def
      spec_gaze_ratio_def GAZE_MIN_EYE_WIDTH_def Let_def)

lemma gaze_samples_spec: "gaze_samples fr = spec_gaze_samples fr"
  by (simp add: gaze_samples_def spec_gaze_samples_def avgGaze_spec [abs_def])

lemma head_samples_spec:
  assumes "\<forall>l\<in>set fr. rawHeadAngles l \<noteq> None"
  shows "yaw_samples fr = map spec_raw_yaw fr" and "pitch_samples fr = map spec_raw_pitch fr"
  using assms
  by (induction fr)
    (auto simp add: yaw_samples_def pitch_samples_def map_filter_simps rawHeadAngles_spec)

lemma ema_closed_seed:
  "ema_closed a b xs = (1 - a) ^ length xs * b + ema_closed a 0 xs"
  by (simp add: ema_closed_def)

lemma ema_closed_single: "ema_closed a b [v] = b * (1 - a) + v * a"
  using ema_closed_snoc [of a b "[]" v] by simp

lemma gazing_face_samples:
  "rawHeadAngles gazing_face \<noteq> None" "rawHeadAngles glancing_face \<noteq> None"
  "spec_raw_yaw gazing_face = 0" "spec_raw_pitch gazing_face = 0"
  "spec_raw_gaze gazing_face = Some (1 / 5)"
  "spec_raw_yaw glancing_face = 2 / 5" "spec_raw_pitch glancing_face = 0"
  "spec_raw_gaze glancing_face = Some (1 / 5)"
  by (simp_all add: rawHeadAngles_def landmark_def spec_raw_yaw_def spec_raw_pitch_def
      spec_raw_gaze_def spec_gaze_ratio_def gazing_face_def glancing_face_def still_face_def)

text \<open>
  In any session, the baseline after the calibration frames is the closed-form average of
  the raw samples of the first 45 landmark frames, plus the baseline the object held when
  the session started, damped once per sample. On a new object that seed is 0.
\<close>

lemma calibration_baseline_seeded:
  assumes ops: "list_all session_op ops"
  shows
    "(let s' = run (startMonitoring t s) ops; samples = take 45 (landmark_frames ops)
      in baselineYaw s' =
           (1 - CALIBRATION_EMA_ALPHA) ^ length samples * baselineYaw s
           + ema_closed CALIBRATION_EMA_ALPHA 0 (map spec_raw_yaw samples)
       \<and> baselinePitch s' =
           (1 - CALIBRATION_EMA_ALPHA) ^ length samples * baselinePitch s
           + ema_closed CALIBRATION_EMA_ALPHA 0 (map spec_raw_pitch samples)
       \<and> baselineGaze s' =
           (1 - CALIBRATION_EMA_ALPHA) ^ length (spec_gaze_samples samples) * baselineGaze s
           + ema_closed CALIBRATION_EMA_ALPHA 0 (spec_gaze_samples samples)
       \<and> length samples = min 45 (length (landmark_frames ops)))"
proof -
  let ?fr = "take 45 (landmark_frames ops)"
  have inv: "calibration_inv s (landmark_frames ops) (run (startMonitoring t s) ops)"
    using ops by (rule calibration_inv_run)
  have angles: "\<forall>l\<in>set ?fr. rawHeadAngles l \<noteq> None"
    using session_frames_have_angles [OF ops] by (auto dest: in_set_takeD)
  have y: "baselineYaw (run (startMonitoring t s) ops) =
      ema_closed CALIBRATION_EMA_ALPHA (baselineYaw s) (map spec_raw_yaw ?fr)"
    and p: "baselinePitch (run (startMonitoring t s) ops) =
      ema_closed CALIBRATION_EMA_ALPHA (baselinePitch s) (map spec_raw_pitch ?fr)"
    and g: "baselineGaze (run (startMonitoring t s) ops) =
      ema_closed CALIBRATION_EMA_ALPHA (baselineGaze s) (spec_gaze_samples ?fr)"
    using inv by (simp_all add: calibration_inv_def head_samples_spec [OF angles] gaze_samples_spec)
  show ?thesis
    unfolding Let_def
    using ema_closed_seed [of CALIBRATION_EMA_ALPHA "baselineYaw s" "map spec_raw_yaw ?fr"]
      ema_closed_seed [of CALIBRATION_EMA_ALPHA "baselinePitch s" "map spec_raw_pitch ?fr"]
      ema_closed_seed [of CALIBRATION_EMA_ALPHA "baselineGaze s" "spec_gaze_samples ?fr"]
    by (simp add: y p g min.commute)
qed

lemma calibration_baseline_new_object:
  assumes ops: "list_all session_op ops"
  shows
    "(let s' = run (constructor json_parse to_descriptors stored t0) (StartMonitoring t # ops);
          samples = take 45 (landmark_frames ops)
      in baselineYaw s' = ema_closed CALIBRATION_EMA_ALPHA 0 (map spec_raw_yaw samples)
       \<and> baselinePitch s' = ema_closed CALIBRATION_EMA_ALPHA 0 (map spec_raw_pitch samples)
       \<and> baselineGaze s' = ema_closed CALIBRATION_EMA_ALPHA 0 (spec_gaze_samples samples))"
proof -
  have zero: "baselineYaw (constructor json_parse to_descriptors stored t0) = 0"
    "baselinePitch (constructor json_parse to_descriptors stored t0) = 0"
    "baselineGaze (constructor json_parse to_descriptors stored t0) = 0"
    by (simp_all add: constructor_def loadEnrolledFace_def initial_fields_def logEvent_eq
        split: option.splits)
  show ?thesis
    using calibration_baseline_seeded [OF ops, of t "constructor json_parse to_descriptors stored t0"]
    by (simp add: Let_def run_Cons zero)
qed

lemma spec_gaze_samples_replicate:
  "spec_raw_gaze l = Some g \<Longrightarrow> spec_gaze_samples (replicate n l) = replicate n g"
  by (induction n) (simp_all add: spec_gaze_samples_def map_filter_simps)

lemma reused_object_first_session:
  "baselineYaw (run fresh_session [FaceMeshResults [glancing_face] 1033, StopMonitoring 1066])
     = 1 / 25"
  "baselineGaze (run fresh_session [FaceMeshResults [glancing_face] 1033, StopMonitoring 1066])
     = 1 / 50"
proof -
  have ops: "list_all session_op [FaceMeshResults [glancing_face] 1033]"
    by (simp add: gazing_face_samples)
  have "baselineYaw (run fresh_session [FaceMeshResults [glancing_face] 1033]) = 1 / 25"
    and "baselineGaze (run fresh_session [FaceMeshResults [glancing_face] 1033]) = 1 / 50"
    using calibration_baseline_new_object [OF ops,
        of "\<lambda>_. None :: unit option" "\<lambda>_. None" None 0 1000]
    by (simp_all add: Let_def fresh_session_def run_Cons spec_gaze_samples_def map_filter_simps
        gazing_face_samples ema_closed_single CALIBRATION_EMA_ALPHA_def)
  then show
    "baselineYaw (run fresh_session [FaceMeshResults [glancing_face] 1033, StopMonitoring 1066])
       = 1 / 25"
    "baselineGaze (run fresh_session [FaceMeshResults [glancing_face] 1033, StopMonitoring 1066])
       = 1 / 50"
    using run_snoc [of fresh_session "[FaceMeshResults [glancing_face] 1033]" "StopMonitoring 1066"]
    by (simp_all add: stopMonitoring_def Let_def logEvent_eq addToSessionLog_def)
qed

text \<open>
  C3. The claim is that after exactly 45 calibration frames the baseline yaw, pitch and gaze
  equal the closed-form exponential moving average with factor 0.1 of the raw samples of
  those frames (for gaze, of the frames where both ratios are computable). On a new object
  they do. On an object whose first session saw one calibration frame with yaw 0.4 and gaze
  0.2 and was stopped, the second start keeps the baseline (1/25 and 1/50), and after the 45
  calibration frames of the second session (yaw samples 0, gaze samples 1/5) the baseline
  is that average plus 0.9 to the 45th times the old baseline: it is not the average of the
  45 samples.
\<close>

theorem restart_seeds_baseline:
  "landmark_frames (mesh_frames gazing_face 100033 45) = replicate 45 gazing_face
   \<and> map spec_raw_yaw (replicate 45 gazing_face) = replicate 45 0
   \<and> spec_gaze_samples (replicate 45 gazing_face) = replicate 45 (1 / 5)
   \<and> CALIBRATION_EMA_ALPHA = 0.1
   \<and> baselineYaw (run fresh_session (mesh_frames gazing_face 1033 45))
       = ema_closed CALIBRATION_EMA_ALPHA 0 (replicate 45 0)
   \<and> baselineGaze (run fresh_session (mesh_frames gazing_face 1033 45))
       = ema_closed CALIBRATION_EMA_ALPHA 0 (replicate 45 (1 / 5))
   \<and> calibrationFrames (run fresh_session reused_object_run) = 45
   \<and> baselineYaw (run fresh_session reused_object_run)
       = ema_closed CALIBRATION_EMA_ALPHA 0 (replicate 45 0)
         + (1 - CALIBRATION_EMA_ALPHA) ^ 45 * (1 / 25)
   \<and> baselineGaze (run fresh_session reused_object_run)
       = ema_closed CALIBRATION_EMA_ALPHA 0 (replicate 45 (1 / 5))
         + (1 - CALIBRATION_EMA_ALPHA) ^ 45 * (1 / 50)
   \<and> baselineYaw (run fresh_session reused_object_run)
       \<noteq> ema_closed CALIBRATION_EMA_ALPHA 0 (replicate 45 0)
   \<and> baselineGaze (run fresh_session reused_object_run)
       \<noteq> ema_closed CALIBRATION_EMA_ALPHA 0 (replicate 45 (1 / 5))"
proof -
  let ?frames = "mesh_frames gazing_face 100033 45"
  let ?s1 = "run fresh_session [FaceMeshResults [glancing_face] 1033, StopMonitoring 1066]"
  have ops: "list_all session_op ?frames"
    by (rule mesh_frames_session) (simp add: gazing_face_samples)
  have fr: "landmark_frames ?frames = replicate 45 gazing_face"
    by (rule mesh_frames_landmarks)
  have ys: "map spec_raw_yaw (replicate 45 gazing_face) = replicate 45 0"
    by (simp add: gazing_face_samples)
  have gs: "spec_gaze_samples (replicate 45 gazing_face) = replicate 45 (1 / 5)"
    by (rule spec_gaze_samples_replicate) (simp add: gazing_face_samples)
  have alpha: "CALIBRATION_EMA_ALPHA = 0.1"
    by (simp add: CALIBRATION_EMA_ALPHA_def)
  have pos: "(1 - CALIBRATION_EMA_ALPHA) ^ 45 \<noteq> 0"
    by (simp add: CALIBRATION_EMA_ALPHA_def)
  have split: "run fresh_session reused_object_run = run (startMonitoring 100000 ?s1) ?frames"
    by (simp add: reused_object_run_def run_append run_Cons run_Nil)
  have inv: "calibration_inv ?s1 (landmark_frames ?frames) (run (startMonitoring 100000 ?s1) ?frames)"
    using ops by (rule calibration_inv_run)
  have cf: "calibrationFrames (run fresh_session reused_object_run) = 45"
    using inv by (simp add: split calibration_inv_def fr)
  have ops1: "list_all session_op (mesh_frames gazing_face 1033 45)"
    by (rule mesh_frames_session) (simp add: gazing_face_samples)
  have once: "baselineYaw (run fresh_session (mesh_frames gazing_face 1033 45))
       = ema_closed CALIBRATION_EMA_ALPHA 0 (replicate 45 0)"
    "baselineGaze (run fresh_session (mesh_frames gazing_face 1033 45))
       = ema_closed CALIBRATION_EMA_ALPHA 0 (replicate 45 (1 / 5))"
    using calibration_baseline_new_object [OF ops1,
        of "\<lambda>_. None :: unit option" "\<lambda>_. None" None 0 1000]
    by (simp_all add: Let_def fresh_session_def run_Cons mesh_frames_landmarks gs
        gazing_face_samples)
  have twice: "baselineYaw (run fresh_session reused_object_run)
       = ema_closed CALIBRATION_EMA_ALPHA 0 (replicate 45 0)
         + (1 - CALIBRATION_EMA_ALPHA) ^ 45 * (1 / 25)"
    "baselineGaze (run fresh_session reused_object_run)
       = ema_closed CALIBRATION_EMA_ALPHA 0 (replicate 45 (1 / 5))
         + (1 - CALIBRATION_EMA_ALPHA) ^ 45 * (1 / 50)"
    using calibration_baseline_seeded [OF ops, of 100000 ?s1]
    by (simp_all add: Let_def split fr gs gazing_face_samples reused_object_first_session)
  have differ: "baselineYaw (run fresh_session reused_object_run)
       \<noteq> ema_closed CALIBRATION_EMA_ALPHA 0 (replicate 45 0)"
    "baselineGaze (run fresh_session reused_object_run)
       \<noteq> ema_closed CALIBRATION_EMA_ALPHA 0 (replicate 45 (1 / 5))"
    using pos by (simp_all add: twice)
  show ?thesis
    by (intro conjI) (rule fr ys gs alpha once cf twice differ)+
qed

section \<open>Distraction hysteresis\<close>

lemma calibrate_still:
  assumes "isMonitoring s" and "baselineYaw s = 0" and "baselinePitch s = 0"
  shows "calibrationFrames s + n \<le> 45 \<Longrightarrow>
    run s (mesh_frames still_face t0 n) = s\<lparr>calibrationFrames := calibrationFrames s + n\<rparr>"
proof (induction n)
  case 0
  then show ?case by (simp add: mesh_frames_def run_def)
next
  case (Suc n)
  let ?s = "s\<lparr>calibrationFrames := calibrationFrames s + n\<rparr>"
  have mon: "isMonitoring ?s" using assms by simp
  have lt: "calibrationFrames ?s < CALIBRATION_MAX_FRAMES"
    using Suc.prems by (simp add: CALIBRATION_MAX_FRAMES_def)
  have "run s (mesh_frames still_face t0 (Suc n)) =
      state_of (onFaceMeshResults [still_face] (t0 + 33 * int n) ?s)"
    using Suc by (simp add: mesh_frames_Suc run_snoc)
  also have "\<dots> = s\<lparr>calibrationFrames := calibrationFrames s + Suc n\<rparr>"
    using assms
    by (intro state.equality)
      (simp_all add: onFaceMeshResults_calibrating [OF mon lt] calibrateBaseline_eq
        still_face_angles face_gaze state_of_def ema_step_def)
  finally show ?case .
qed

lemma fresh_session_eq:
  "fresh_session =
     \<lparr>isMonitoring = True, enrolledDescriptors = None, sessionStartTime = Some 1000,
      totalViolations = 0, attentionViolations = 0,
      sessionEvents =
        [\<lparr>ev_timestamp = 1000, ev_message = ''Monitoring session started - Calibrating...'',
          ev_type = ''info''\<rparr>],
      sessionLogs =
        [\<lparr>log_entry = Event_entry ''info'' ''Monitoring session started - Calibrating...'',
          log_timestamp = 1000, log_session_id = Some 1000\<rparr>,
         \<lparr>log_entry = Session_start, log_timestamp = 1000, log_session_id = Some 1000\<rparr>],
      lastFaceCount = 0, lastAttentionState = AttUnknown, lastPersonState = PersonUnknown,
      yawHistory = [], pitchHistory = [], gazeHistory = [],
      distractionCounter = 0, focusCounter = 0, unauthorizedCounter = 0, authorizedCounter = 0,
      lastViolationFrameSave = 0, lastFaceRecogTime = 0, faceRecognitionStarted = False,
      calibrationFrames = 0, baselineYaw = 0, baselinePitch = 0, baselineGaze = 0,
      distractionStartTime = None, violationFrames = [], pendingCaptures = []\<rparr>"
  by (simp add: fresh_session_def constructor_def loadEnrolledFace_def initial_fields_def
      startMonitoring_def Let_def logEvent_eq addToSessionLog_def)

lemmas evaluate_step =
  run_Cons run_Nil step.simps state_of_def
  onFaceMeshResults_def calibrateBaseline_eq analyzeAttention_def analyzeGaze_def
  stabilizeAttention_def startMonitoring_def stopMonitoring_def logEvent_eq addToSessionLog_def
  attention_message_def capture_accepted_def push_history_def ema_step_def
  still_face_angles turned_face_angles face_gaze Let_def CONFIG_defs

lemmas evaluate_run = run_append calibrate_still fresh_session_eq evaluate_step

lemma first_session_end:
  "distractionStartTime (run fresh_session first_session) = Some 2518"
  by (simp add: first_session_def evaluate_run)

lemma restarted_state:
  "run (run fresh_session first_session) second_session =
     \<lparr>isMonitoring = True, enrolledDescriptors = None, sessionStartTime = Some 100000,
      totalViolations = 0, attentionViolations = 0,
      sessionEvents =
        [\<lparr>ev_timestamp = 100000, ev_message = ''Monitoring session started - Calibrating...'',
          ev_type = ''info''\<rparr>],
      sessionLogs =
        [\<lparr>log_entry = Event_entry ''info'' ''Monitoring session started - Calibrating...'',
          log_timestamp = 100000, log_session_id = Some 100000\<rparr>,
         \<lparr>log_entry = Session_start, log_timestamp = 100000, log_session_id = Some 100000\<rparr>],
      lastFaceCount = 0, lastAttentionState = AttUnknown, lastPersonState = PersonUnknown,
      yawHistory = [2 / 5], pitchHistory = [0], gazeHistory = [],
      distractionCounter = 0, focusCounter = 0, unauthorizedCounter = 0, authorizedCounter = 0,
      lastViolationFrameSave = 0, lastFaceRecogTime = 0, faceRecognitionStarted = False,
      calibrationFrames = 45, baselineYaw = 0, baselinePitch = 0, baselineGaze = 0,
      distractionStartTime = Some 2518, violationFrames = [], pendingCaptures = []\<rparr>"
  by (simp add: first_session_def second_session_def evaluate_run)

text \<open>
  What the stabilisation block does on a focused and on a distracted frame, and the link
  between counter and episode start that every operation but a start preserves.
\<close>

lemma stabilizeAttention_focused:
  "distractionCounter (stabilizeAttention Focused Focused now s) = 0
   \<and> distractionStartTime (stabilizeAttention Focused Focused now s) = None
   \<and> focusCounter (stabilizeAttention Focused Focused now s) = focusCounter s + 1"
  by (simp add: stabilizeAttention_def Let_def logEvent_eq addToSessionLog_def)

lemma stabilizeAttention_distracted:
  assumes "a = Distracted \<or> g = Distracted"
  shows "distractionCounter (stabilizeAttention a g now s) = distractionCounter s + 1"
    and "distractionStartTime (stabilizeAttention a g now s) =
           (case distractionStartTime s of None \<Rightarrow> Some now | Some t \<Rightarrow> Some t)"
    and "sessionEvents (stabilizeAttention a g now s) =
           sessionEvents s @
             (if STABILIZATION_THRESHOLD \<le> distractionCounter s + 1
                 \<and> ATTENTION_MIN_DISTRACTION_DURATION \<le>
                     now - (case distractionStartTime s of None \<Rightarrow> now | Some t \<Rightarrow> t)
                 \<and> lastAttentionState s \<noteq> AttDistracted
              then [\<lparr>ev_timestamp = now, ev_message = ''Sustained distraction detected'',
                     ev_type = ''violation''\<rparr>]
              else [])"
    and "lastAttentionState (stabilizeAttention a g now s) =
           (if STABILIZATION_THRESHOLD \<le> distractionCounter s + 1
               \<and> ATTENTION_MIN_DISTRACTION_DURATION \<le>
                   now - (case distractionStartTime s of None \<Rightarrow> now | Some t \<Rightarrow> t)
            then AttDistracted else lastAttentionState s)"
  using assms
  by (auto simp add: stabilizeAttention_def Let_def logEvent_eq addToSessionLog_def
      ATTENTION_MIN_DISTRACTION_DURATION_def split: option.splits)

lemma episode_ok_stabilizeAttention:
  "episode_ok s \<Longrightarrow> episode_ok (stabilizeAttention a g now s)"
  by (simp add: episode_ok_def stabilizeAttention_def Let_def logEvent_eq addToSessionLog_def)

lemma episode_ok_onFaceMeshResults:
  "episode_ok s \<Longrightarrow> episode_ok (state_of (onFaceMeshResults ls now s))"
proof (cases ls now s rule: onFaceMeshResults_cases)
  case (analysis l rest a g y p h)
  assume "episode_ok s"
  then have "episode_ok
      ((calibration_transition now s)\<lparr>yawHistory := y, pitchHistory := p, gazeHistory := h\<rparr>)"
    by (simp add: episode_ok_def calibration_transition_def Let_def logEvent_eq
        addToSessionLog_def)
  then show ?thesis
    using analysis(5) episode_ok_stabilizeAttention by simp
qed (simp_all add: episode_ok_def calibration_transition_def Let_def logEvent_eq
      addToSessionLog_def)

lemma episode_ok_step:
  assumes "episode_ok s" and "\<forall>now. op \<noteq> StartMonitoring now"
  shows "episode_ok (step s op)"
proof (cases op)
  case (FaceMeshResults ls now)
  then show ?thesis using assms(1) by (simp add: episode_ok_onFaceMeshResults)
next
  case (Recognition d now)
  have "episode_ok (performFaceRecognition d now s')" if "episode_ok s'" for s'
    using that
    by (simp add: episode_ok_def performFaceRecognition_def resetFaceRecognitionCounters_def
        Let_def logEvent_eq addToSessionLog_def split: detection_result.splits option.splits)
  moreover have "episode_ok (s\<lparr>lastFaceRecogTime := now, faceRecognitionStarted := True\<rparr>)"
    using assms(1) by (simp add: episode_ok_def)
  ultimately show ?thesis
    using assms(1)
    by (simp add: Recognition processVideo_recognition_def Let_def split: option.splits)
qed (use assms in \<open>simp_all add: episode_ok_def startMonitoring_failed_def stopMonitoring_def
      onFaceDetectionResults_def resetFaceRecognitionCounters_def toBlobCallback_def Let_def
      logEvent_eq addToSessionLog_def split: list.splits\<close>)

lemma episode_ok_first_session:
  assumes "\<forall>op\<in>set ops. \<forall>now. op \<noteq> StartMonitoring now"
  shows "episode_ok (run (constructor json_parse to_descriptors stored t0) (StartMonitoring t # ops))"
proof -
  have start: "episode_ok (startMonitoring t (constructor json_parse to_descriptors stored t0))"
    by (simp add: episode_ok_def startMonitoring_def constructor_def loadEnrolledFace_def
        initial_fields_def Let_def logEvent_eq addToSessionLog_def split: option.splits)
  have "episode_ok (run s ops)" if "episode_ok s" for s
    using assms that
  proof (induction ops arbitrary: s)
    case Nil
    then show ?case by (simp add: run_Nil)
  next
    case (Cons op ops)
    then show ?case by (simp add: run_Cons episode_ok_step)
  qed
  then show ?thesis using start by (simp add: run_Cons)
qed

text \<open>
  C1. The claim is that a distraction is confirmed on a frame exactly when that frame is at
  least the third consecutive distracted frame, at least 2000 ms have passed since the
  first frame of that run, and the confirmed state is not yet distracted. On an object that
  is stopped one frame into a distraction and started again, the episode start of the old
  session (2518) survives the start while the counter is reset: in the second session the
  run of distracted frames begins at 101518 and the confirmation fires on its third frame,
  at 101584, 66 ms after the run began.
\<close>

theorem restart_confirms_early:
  "distractionStartTime (run fresh_session first_session) = Some 2518
   \<and> distractionCounter (run fresh_session (first_session @ second_session)) = 0
   \<and> distractionStartTime (run fresh_session (first_session @ second_session)) = Some 2518
   \<and> distractionCounter (run fresh_session (first_session @ second_session @
         [FaceMeshResults [turned_face] 101518])) = 1
   \<and> distractionCounter (run fresh_session (first_session @ second_session @
         [FaceMeshResults [turned_face] 101518, FaceMeshResults [turned_face] 101551])) = 2
   \<and> lastAttentionState (run fresh_session (first_session @ second_session @
         [FaceMeshResults [turned_face] 101518, FaceMeshResults [turned_face] 101551]))
       = AttUnknown
   \<and> distractionCounter (run fresh_session (first_session @ second_session @
         [FaceMeshResults [turned_face] 101518, FaceMeshResults [turned_face] 101551,
          FaceMeshResults [turned_face] 101584])) = 3
   \<and> lastAttentionState (run fresh_session (first_session @ second_session @
         [FaceMeshResults [turned_face] 101518, FaceMeshResults [turned_face] 101551,
          FaceMeshResults [turned_face] 101584])) = AttDistracted
   \<and> sessionEvents (run fresh_session (first_session @ second_session @
         [FaceMeshResults [turned_face] 101518, FaceMeshResults [turned_face] 101551,
          FaceMeshResults [turned_face] 101584])) =
       [\<lparr>ev_timestamp = 100000, ev_message = ''Monitoring session started - Calibrating...'',
         ev_type = ''info''\<rparr>,
        \<lparr>ev_timestamp = 101518, ev_message = ''Calibration complete - Monitoring attention'',
         ev_type = ''info''\<rparr>,
        \<lparr>ev_timestamp = 101584, ev_message = ''Sustained distraction detected'',
         ev_type = ''violation''\<rparr>]
   \<and> (101584 :: int) - 101518 < ATTENTION_MIN_DISTRACTION_DURATION"
  by (simp add: run_append restarted_state first_session_end evaluate_step)

end
